theory Spec2Isabelle
  imports Main "HOL-Library.Word" "HOL-Library.AList"
begin

section \<open>Values, exceptions and the outside world\<close>

text \<open>
  Python \<open>bytes\<close> are lists of 8-bit words. A value read from or written to one of the
  vault files is a JSON value; a Python \<open>dict\<close> with string keys is an association list,
  which keeps the insertion order as Python does.
\<close>

type_synonym byte = "8 word"
type_synonym bytes = "byte list"

datatype json =
    JNull
  | JBool bool
  | JInt int
  | JStr string
  | JList "json list"
  | JObj "(string \<times> json) list"

text \<open>
  Exceptions are values. \<open>ValueError\<close> is what \<open>vault.py\<close> raises itself, with its message;
  \<open>KeyError\<close>, \<open>TypeError\<close> and \<open>AttributeError\<close> come from Python's own dictionary and
  attribute operations; \<open>LibraryError\<close> carries an exception raised inside one of the
  imported libraries (\<open>cryptography\<close>, \<open>base64\<close>, \<open>json\<close>, \<open>bytes.decode\<close>).
\<close>

datatype lib_exn =
    InvalidTag
  | CipherValueError
  | BinasciiError
  | UnicodeDecodeError
  | JSONDecodeError

datatype exn =
    ValueError string
  | KeyError string
  | TypeError
  | AttributeError
  | FileNotFoundError
  | LibraryError lib_exn

text \<open>
  The imported libraries are parameters of the model: \<open>PBKDF2HMAC(SHA256, length, salt,
  iterations).derive(password)\<close>, the \<open>AESGCM(key)\<close> constructor with its \<open>encrypt\<close> and
  \<open>decrypt\<close> methods (arguments: cipher object, nonce, data, associated data),
  \<open>urlsafe_b64encode(b).decode('ascii')\<close>, \<open>urlsafe_b64decode(s.encode('ascii'))\<close>,
  \<open>str.encode('utf-8')\<close>, \<open>bytes.decode('utf-8')\<close>, \<open>json.dumps\<close> and \<open>json.loads\<close>.
\<close>

record library =
  pbkdf2_hmac_sha256 :: "nat \<Rightarrow> bytes \<Rightarrow> nat \<Rightarrow> bytes \<Rightarrow> bytes"
  AESGCM :: "bytes \<Rightarrow> lib_exn + bytes"
  aes_encrypt :: "bytes \<Rightarrow> bytes \<Rightarrow> bytes \<Rightarrow> bytes \<Rightarrow> lib_exn + bytes"
  aes_decrypt :: "bytes \<Rightarrow> bytes \<Rightarrow> bytes \<Rightarrow> bytes \<Rightarrow> lib_exn + bytes"
  urlsafe_b64encode :: "bytes \<Rightarrow> string"
  urlsafe_b64decode :: "string \<Rightarrow> lib_exn + bytes"
  utf8_encode :: "string \<Rightarrow> bytes"
  utf8_decode :: "bytes \<Rightarrow> lib_exn + string"
  json_dumps :: "json \<Rightarrow> string"
  json_loads :: "string \<Rightarrow> lib_exn + json"

text \<open>
  The world: the bytes \<open>os.urandom\<close> is going to return, in order, with the number of
  bytes already drawn, and the three files of the vault directory. A file is the JSON
  value \<open>json.loads\<close> reads from it (\<open>None\<close>: the file does not exist).
\<close>

record world =
  entropy :: "nat \<Rightarrow> byte"
  drawn :: nat
  meta_file :: "json option"
  real_file :: "json option"
  decoy_file :: "json option"

definition urandom_peek :: "world \<Rightarrow> nat \<Rightarrow> bytes" where
  "urandom_peek w n = map (entropy w) [drawn w ..< drawn w + n]"

definition os_urandom :: "nat \<Rightarrow> world \<Rightarrow> bytes \<times> world" where
  "os_urandom n w = (urandom_peek w n, w\<lparr>drawn := drawn w + n\<rparr>)"

subsection \<open>Python's dictionary operations and truth values\<close>

fun ebind :: "exn + 'a \<Rightarrow> ('a \<Rightarrow> exn + 'b) \<Rightarrow> exn + 'b" where
  "ebind (Inl e) f = Inl e"
| "ebind (Inr x) f = f x"

fun from_lib :: "lib_exn + 'a \<Rightarrow> exn + 'a" where
  "from_lib (Inl e) = Inl (LibraryError e)"
| "from_lib (Inr x) = Inr x"

text \<open>\<open>d[k]\<close>: a missing key raises KeyError, a value that is no dictionary TypeError.\<close>

fun py_getitem :: "json \<Rightarrow> string \<Rightarrow> exn + json" where
  "py_getitem (JObj kv) k = (case map_of kv k of None \<Rightarrow> Inl (KeyError k) | Some v \<Rightarrow> Inr v)"
| "py_getitem _ k = Inl TypeError"

text \<open>\<open>d.get(k, default)\<close>: only a dictionary has the method.\<close>

fun py_get :: "json \<Rightarrow> string \<Rightarrow> json \<Rightarrow> exn + json" where
  "py_get (JObj kv) k d = (case map_of kv k of None \<Rightarrow> Inr d | Some v \<Rightarrow> Inr v)"
| "py_get _ k d = Inl AttributeError"

text \<open>\<open>d[k] = v\<close>: an existing key keeps its place, a new key goes last.\<close>

fun py_setitem :: "json \<Rightarrow> string \<Rightarrow> json \<Rightarrow> exn + json" where
  "py_setitem (JObj kv) k v = Inr (JObj (AList.update k v kv))"
| "py_setitem _ k v = Inl TypeError"

fun py_truthy :: "json \<Rightarrow> bool" where
  "py_truthy JNull = False"
| "py_truthy (JBool b) = b"
| "py_truthy (JInt i) = (i \<noteq> 0)"
| "py_truthy (JStr s) = (s \<noteq> [])"
| "py_truthy (JList xs) = (xs \<noteq> [])"
| "py_truthy (JObj kv) = (kv \<noteq> [])"

text \<open>The truth value of an \<open>Optional[str]\<close>: \<open>None\<close> and the empty string are false.\<close>

fun str_truthy :: "string option \<Rightarrow> bool" where
  "str_truthy None = False"
| "str_truthy (Some s) = (s \<noteq> [])"

section \<open>crypto.py\<close>

definition KDF_ITERATIONS :: nat where "KDF_ITERATIONS = 200000"
definition SALT_SIZE :: nat where "SALT_SIZE = 16"
definition NONCE_SIZE :: nat where "NONCE_SIZE = 12"
definition CEK_SIZE :: nat where "CEK_SIZE = 32"

definition AAD_HEADER :: bytes where
  "AAD_HEADER = map of_char ''zentry-v1''"

definition b64encode :: "library \<Rightarrow> bytes \<Rightarrow> string" where
  "b64encode lib b = urlsafe_b64encode lib b"

text \<open>\<open>s.encode('ascii')\<close> needs a string: any other value has no such method.\<close>

fun b64decode :: "library \<Rightarrow> json \<Rightarrow> exn + bytes" where
  "b64decode lib (JStr s) = from_lib (urlsafe_b64decode lib s)"
| "b64decode lib _ = Inl AttributeError"

definition derive_key :: "library \<Rightarrow> string \<Rightarrow> bytes \<Rightarrow> nat \<Rightarrow> nat \<Rightarrow> bytes" where
  "derive_key lib password salt iterations len =
     pbkdf2_hmac_sha256 lib len salt iterations (utf8_encode lib password)"

definition aesgcm_encrypt ::
  "library \<Rightarrow> bytes \<Rightarrow> bytes \<Rightarrow> bytes \<Rightarrow> world \<Rightarrow> (exn + bytes \<times> bytes) \<times> world" where
  "aesgcm_encrypt lib key plaintext aad w =
     (case AESGCM lib key of
        Inl e \<Rightarrow> (Inl (LibraryError e), w)
      | Inr aes \<Rightarrow>
          (case os_urandom NONCE_SIZE w of (nonce, w1) \<Rightarrow>
             (case aes_encrypt lib aes nonce plaintext aad of
                Inl e \<Rightarrow> (Inl (LibraryError e), w1)
              | Inr ct \<Rightarrow> (Inr (nonce, ct), w1))))"

definition aesgcm_decrypt :: "library \<Rightarrow> bytes \<Rightarrow> bytes \<Rightarrow> bytes \<Rightarrow> bytes \<Rightarrow> exn + bytes" where
  "aesgcm_decrypt lib key nonce ciphertext aad =
     ebind (from_lib (AESGCM lib key))
       (\<lambda>aes. from_lib (aes_decrypt lib aes nonce ciphertext aad))"

definition create_cek :: "world \<Rightarrow> bytes \<times> world" where
  "create_cek w = os_urandom CEK_SIZE w"

definition wrap_cek_with_password ::
  "library \<Rightarrow> bytes \<Rightarrow> string \<Rightarrow> world \<Rightarrow> (exn + json) \<times> world" where
  "wrap_cek_with_password lib cek password w =
     (case os_urandom SALT_SIZE w of (salt, w1) \<Rightarrow>
        (case aesgcm_encrypt lib (derive_key lib password salt KDF_ITERATIONS 32) cek AAD_HEADER w1 of
           (Inl e, w2) \<Rightarrow> (Inl e, w2)
         | (Inr (nonce, ct), w2) \<Rightarrow>
             (Inr (JObj [(''salt'', JStr (b64encode lib salt)),
                         (''nonce'', JStr (b64encode lib nonce)),
                         (''ct'', JStr (b64encode lib ct))]), w2)))"

definition unwrap_cek_with_password :: "library \<Rightarrow> json \<Rightarrow> string \<Rightarrow> exn + bytes" where
  "unwrap_cek_with_password lib wrapped password =
     ebind (ebind (py_getitem wrapped ''salt'') (b64decode lib)) (\<lambda>salt.
     ebind (ebind (py_getitem wrapped ''nonce'') (b64decode lib)) (\<lambda>nonce.
     ebind (ebind (py_getitem wrapped ''ct'') (b64decode lib)) (\<lambda>ct.
       aesgcm_decrypt lib (derive_key lib password salt KDF_ITERATIONS 32) nonce ct AAD_HEADER)))"

definition encrypt_payload_with_cek ::
  "library \<Rightarrow> bytes \<Rightarrow> bytes \<Rightarrow> world \<Rightarrow> (exn + json) \<times> world" where
  "encrypt_payload_with_cek lib cek payload w =
     (case aesgcm_encrypt lib cek payload AAD_HEADER w of
        (Inl e, w1) \<Rightarrow> (Inl e, w1)
      | (Inr (nonce, ct), w1) \<Rightarrow>
          (Inr (JObj [(''nonce'', JStr (b64encode lib nonce)),
                      (''ct'', JStr (b64encode lib ct))]), w1))"

definition decrypt_payload_with_cek :: "library \<Rightarrow> bytes \<Rightarrow> json \<Rightarrow> exn + bytes" where
  "decrypt_payload_with_cek lib cek enc =
     ebind (ebind (py_getitem enc ''nonce'') (b64decode lib)) (\<lambda>nonce.
     ebind (ebind (py_getitem enc ''ct'') (b64decode lib)) (\<lambda>ct.
       aesgcm_decrypt lib cek nonce ct AAD_HEADER))"

definition create_vault_blob ::
  "library \<Rightarrow> bytes \<Rightarrow> bytes \<Rightarrow> world \<Rightarrow> (exn + json) \<times> world" where
  "create_vault_blob lib cek items_json_bytes w =
     (case encrypt_payload_with_cek lib cek items_json_bytes w of
        (Inl e, w1) \<Rightarrow> (Inl e, w1)
      | (Inr enc, w1) \<Rightarrow>
          (ebind (py_getitem enc ''ct'') (\<lambda>ct.
           ebind (py_getitem enc ''nonce'') (\<lambda>nonce.
             Inr (JObj [(''version'', JInt 1),
                        (''aad'', JStr (b64encode lib AAD_HEADER)),
                        (''file_ct'', ct),
                        (''file_nonce'', nonce)]))), w1))"

definition decrypt_vault_blob :: "library \<Rightarrow> bytes \<Rightarrow> json \<Rightarrow> exn + bytes" where
  "decrypt_vault_blob lib cek blob =
     ebind (py_getitem blob ''file_nonce'') (\<lambda>nonce.
     ebind (py_getitem blob ''file_ct'') (\<lambda>ct.
       decrypt_payload_with_cek lib cek (JObj [(''nonce'', nonce), (''ct'', ct)])))"

section \<open>vault.py\<close>

definition META_FILENAME :: string where "META_FILENAME = ''meta.json''"
definition REAL_FILENAME :: string where "REAL_FILENAME = ''real.zvlt''"
definition DECOY_FILENAME :: string where "DECOY_FILENAME = ''decoy.zvlt''"

definition encode_bytes :: "library \<Rightarrow> bytes \<Rightarrow> string" where
  "encode_bytes lib b = urlsafe_b64encode lib b"

text \<open>\<open>json.dumps(x).encode('utf-8')\<close> and \<open>json.loads(b.decode('utf-8'))\<close>.\<close>

definition dumps_body :: "library \<Rightarrow> json \<Rightarrow> bytes" where
  "dumps_body lib x = utf8_encode lib (json_dumps lib x)"

definition loads_body :: "library \<Rightarrow> bytes \<Rightarrow> exn + json" where
  "loads_body lib b = ebind (from_lib (utf8_decode lib b)) (\<lambda>s. from_lib (json_loads lib s))"

definition decoy_items :: "library \<Rightarrow> json" where
  "decoy_items lib =
     JList [JObj [(''name'', JStr ''decoy_welcome.txt''),
                  (''type'', JStr ''file''),
                  (''data'', JStr (encode_bytes lib
                     (map of_char (''Welcome to the decoy vault. Nothing secret here.'' @ [CHR 0x0A]))))]]"

definition init_new ::
  "library \<Rightarrow> string \<Rightarrow> string option \<Rightarrow> string \<Rightarrow> world \<Rightarrow> (exn + unit) \<times> world" where
  "init_new lib l1_password l2_password decoy_password w =
     (let meta = JObj [(''version'', JInt 1),
                       (''real'', JObj [(''file'', JStr REAL_FILENAME),
                                        (''two_level'', JBool (str_truthy l2_password))]),
                       (''decoy'', JObj [(''file'', JStr DECOY_FILENAME)])];
          w0 = w\<lparr>meta_file := Some meta\<rparr>
      in case create_cek w0 of (cek, w1) \<Rightarrow>
         (case create_vault_blob lib cek (dumps_body lib (JList [])) w1 of
            (Inl e, w2) \<Rightarrow> (Inl e, w2)
          | (Inr blob, w2) \<Rightarrow>
         (case wrap_cek_with_password lib cek l1_password w2 of
            (Inl e, w3) \<Rightarrow> (Inl e, w3)
          | (Inr wrapped_l1, w3) \<Rightarrow>
         (case (case l2_password of
                  None \<Rightarrow> (Inr JNull, w3)
                | Some p2 \<Rightarrow> if p2 \<noteq> [] then wrap_cek_with_password lib cek p2 w3
                             else (Inr JNull, w3)) of
            (Inl e, w4) \<Rightarrow> (Inl e, w4)
          | (Inr wrapped_l2, w4) \<Rightarrow>
         (let real_store = JObj [(''version'', JInt 1),
                                 (''policy'', JObj [(''requires_l2'', JBool (str_truthy l2_password))]),
                                 (''wrapped_l1'', wrapped_l1),
                                 (''wrapped_l2'', wrapped_l2),
                                 (''blob'', blob)];
              w5 = w4\<lparr>real_file := Some real_store\<rparr>
          in case create_cek w5 of (decoy_cek, w6) \<Rightarrow>
         (case create_vault_blob lib decoy_cek (dumps_body lib (decoy_items lib)) w6 of
            (Inl e, w7) \<Rightarrow> (Inl e, w7)
          | (Inr decoy_blob, w7) \<Rightarrow>
         (case wrap_cek_with_password lib decoy_cek decoy_password w7 of
            (Inl e, w8) \<Rightarrow> (Inl e, w8)
          | (Inr wrapped_decoy, w8) \<Rightarrow>
              (Inr (), w8\<lparr>decoy_file := Some (JObj [(''version'', JInt 1),
                                                     (''wrapped'', wrapped_decoy),
                                                     (''blob'', decoy_blob)])\<rparr>))))))))"

definition read_json :: "json option \<Rightarrow> exn + json" where
  "read_json f = (case f of None \<Rightarrow> Inl FileNotFoundError | Some v \<Rightarrow> Inr v)"

text \<open>
  \<open>unlock_real\<close> only reads. The two \<open>try\<close> blocks turn every exception of their body into
  \<open>ValueError("unable to unlock vault")\<close>; the last three statements are outside of them.
\<close>

definition unlock_real :: "library \<Rightarrow> world \<Rightarrow> string \<Rightarrow> string option \<Rightarrow> exn + json" where
  "unlock_real lib w l1_password l2_password =
     ebind (read_json (real_file w)) (\<lambda>store.
     ebind (py_get store ''policy'' (JObj [])) (\<lambda>policy.
     ebind (py_get policy ''requires_l2'' (JBool False)) (\<lambda>requires_l2.
     (case ebind (py_getitem store ''wrapped_l1'')
                 (\<lambda>wl1. unwrap_cek_with_password lib wl1 l1_password) of
        Inl e \<Rightarrow> Inl (ValueError ''unable to unlock vault'')
      | Inr cek \<Rightarrow>
     ebind (if py_truthy requires_l2 then
              (case l2_password of
                 None \<Rightarrow> Inl (ValueError ''two-level authentication required'')
               | Some p2 \<Rightarrow>
                   if p2 = [] then Inl (ValueError ''two-level authentication required'')
                   else (case ebind (py_getitem store ''wrapped_l2'')
                                    (\<lambda>wl2. unwrap_cek_with_password lib wl2 p2) of
                           Inl e \<Rightarrow> Inl (ValueError ''unable to unlock vault'')
                         | Inr cek2 \<Rightarrow>
                             if cek \<noteq> cek2 then Inl (ValueError ''unable to unlock vault'')
                             else Inr ()))
            else Inr ()) (\<lambda>_.
     ebind (py_getitem store ''blob'') (\<lambda>blob.
     ebind (decrypt_vault_blob lib cek blob) (\<lambda>body_bytes.
       loads_body lib body_bytes)))))))"

definition save_real_items ::
  "library \<Rightarrow> string \<Rightarrow> string option \<Rightarrow> json \<Rightarrow> world \<Rightarrow> (exn + unit) \<times> world" where
  "save_real_items lib l1_password l2_password items w =
     (case
        ebind (read_json (real_file w)) (\<lambda>store.
        ebind (py_get store ''policy'' (JObj [])) (\<lambda>policy.
        ebind (py_get policy ''requires_l2'' (JBool False)) (\<lambda>requires_l2.
        ebind (ebind (py_getitem store ''wrapped_l1'')
                     (\<lambda>wl1. unwrap_cek_with_password lib wl1 l1_password)) (\<lambda>cek.
        ebind (if py_truthy requires_l2 then
                 (case l2_password of
                    None \<Rightarrow> Inl (ValueError ''two-level authentication required'')
                  | Some p2 \<Rightarrow>
                      if p2 = [] then Inl (ValueError ''two-level authentication required'')
                      else ebind (ebind (py_getitem store ''wrapped_l2'')
                                        (\<lambda>wl2. unwrap_cek_with_password lib wl2 p2)) (\<lambda>cek2.
                             if cek \<noteq> cek2 then Inl (ValueError ''unable to unlock vault'')
                             else Inr ()))
               else Inr ()) (\<lambda>_. Inr (store, cek)))))) of
        Inl e \<Rightarrow> (Inl e, w)
      | Inr (store, cek) \<Rightarrow>
          (case create_vault_blob lib cek (dumps_body lib items) w of
             (Inl e, w1) \<Rightarrow> (Inl e, w1)
           | (Inr blob, w1) \<Rightarrow>
               (case py_setitem store ''blob'' blob of
                  Inl e \<Rightarrow> (Inl e, w1)
                | Inr store' \<Rightarrow> (Inr (), w1\<lparr>real_file := Some store'\<rparr>))))"

definition unlock_decoy :: "library \<Rightarrow> world \<Rightarrow> string \<Rightarrow> exn + json" where
  "unlock_decoy lib w decoy_password =
     ebind (read_json (decoy_file w)) (\<lambda>store.
     (case ebind (py_getitem store ''wrapped'')
                 (\<lambda>wr. unwrap_cek_with_password lib wr decoy_password) of
        Inl e \<Rightarrow> Inl (ValueError ''unable to unlock decoy'')
      | Inr decoy_cek \<Rightarrow>
     ebind (py_getitem store ''blob'') (\<lambda>blob.
     ebind (decrypt_vault_blob lib decoy_cek blob) (\<lambda>body_bytes.
       loads_body lib body_bytes))))"

definition save_decoy_items ::
  "library \<Rightarrow> string \<Rightarrow> json \<Rightarrow> world \<Rightarrow> (exn + unit) \<times> world" where
  "save_decoy_items lib decoy_password items w =
     (case
        ebind (read_json (decoy_file w)) (\<lambda>store.
        ebind (ebind (py_getitem store ''wrapped'')
                     (\<lambda>wr. unwrap_cek_with_password lib wr decoy_password)) (\<lambda>decoy_cek.
          Inr (store, decoy_cek))) of
        Inl e \<Rightarrow> (Inl e, w)
      | Inr (store, decoy_cek) \<Rightarrow>
          (case create_vault_blob lib decoy_cek (dumps_body lib items) w of
             (Inl e, w1) \<Rightarrow> (Inl e, w1)
           | (Inr blob, w1) \<Rightarrow>
               (case py_setitem store ''blob'' blob of
                  Inl e \<Rightarrow> (Inl e, w1)
                | Inr store' \<Rightarrow> (Inr (), w1\<lparr>decoy_file := Some store'\<rparr>))))"

section \<open>The invariant of the real vault record\<close>

text \<open>
  \<open>wrapped_l2\<close> is present when the record has the key with a value other than \<open>null\<close>;
  the policy requires L2 when \<open>policy.get("requires_l2", False)\<close> is true, read the way
  \<open>unlock_real\<close> and \<open>save_real_items\<close> read it.
\<close>

definition wrapped_l2_present :: "json \<Rightarrow> bool" where
  "wrapped_l2_present store =
     (case py_getitem store ''wrapped_l2'' of Inl e \<Rightarrow> False | Inr v \<Rightarrow> v \<noteq> JNull)"

definition policy_requires_l2 :: "json \<Rightarrow> bool" where
  "policy_requires_l2 store =
     (case ebind (py_get store ''policy'' (JObj []))
                 (\<lambda>policy. py_get policy ''requires_l2'' (JBool False)) of
        Inl e \<Rightarrow> False
      | Inr r \<Rightarrow> py_truthy r)"

definition record_invariant :: "json \<Rightarrow> bool" where
  "record_invariant store = (wrapped_l2_present store = policy_requires_l2 store)"

section \<open>What the libraries are assumed to do\<close>

text \<open>
  The contracts of the imported libraries that the theorems below name as hypotheses:
  base64 and UTF-8 decoding invert the encoding; PBKDF2 returns as many bytes as it is
  asked for; AES-GCM accepts a 32-byte key with a 12-byte nonce, and decrypts what it
  encrypted under the same key, nonce and associated data. Serialisation to JSON is
  assumed to round-trip on the documents a theorem names only. Nothing is assumed about
  decryption under another key: a theorem that needs an unwrap to fail says so of that
  unwrap.
\<close>

definition b64_roundtrip :: "library \<Rightarrow> bool" where
  "b64_roundtrip lib = (\<forall>b. urlsafe_b64decode lib (urlsafe_b64encode lib b) = Inr b)"

definition utf8_roundtrip :: "library \<Rightarrow> bool" where
  "utf8_roundtrip lib = (\<forall>s. utf8_decode lib (utf8_encode lib s) = Inr s)"


definition kdf_length :: "library \<Rightarrow> bool" where
  "kdf_length lib = (\<forall>len salt n pw. length (pbkdf2_hmac_sha256 lib len salt n pw) = len)"

definition aead_accepts :: "library \<Rightarrow> bool" where
  "aead_accepts lib =
     (\<forall>key nonce pt aad. length key = 32 \<and> length nonce = 12 \<longrightarrow>
        (\<exists>aes ct. AESGCM lib key = Inr aes \<and> aes_encrypt lib aes nonce pt aad = Inr ct))"

definition aead_correct :: "library \<Rightarrow> bool" where
  "aead_correct lib =
     (\<forall>key aes nonce pt aad ct.
        AESGCM lib key = Inr aes \<and> aes_encrypt lib aes nonce pt aad = Inr ct \<longrightarrow>
        aes_decrypt lib aes nonce ct aad = Inr pt)"

definition library_ok :: "library \<Rightarrow> bool" where
  "library_ok lib =
     (b64_roundtrip lib \<and> kdf_length lib \<and> aead_accepts lib \<and> aead_correct lib)"

section \<open>A small library and world to run the model on\<close>

text \<open>
  An instance of the library that meets the contracts above, for running the model on
  concrete inputs. Its cipher writes key, nonce and associated data in front of the
  plaintext and checks them on decryption; its key derivation pads password and salt
  to the length asked for; its base64 and UTF-8 are the identity between bytes and
  characters; its JSON serialiser knows the two documents \<open>init_new\<close> seals.
\<close>

definition toy_AESGCM :: "bytes \<Rightarrow> lib_exn + bytes" where
  "toy_AESGCM key = (if length key \<in> {16, 24, 32} then Inr key else Inl CipherValueError)"

definition toy_encrypt :: "bytes \<Rightarrow> bytes \<Rightarrow> bytes \<Rightarrow> bytes \<Rightarrow> lib_exn + bytes" where
  "toy_encrypt aes nonce pt aad =
     (if length nonce < 8 \<or> 128 < length nonce then Inl CipherValueError
      else Inr (aes @ nonce @ aad @ pt))"

definition toy_decrypt :: "bytes \<Rightarrow> bytes \<Rightarrow> bytes \<Rightarrow> bytes \<Rightarrow> lib_exn + bytes" where
  "toy_decrypt aes nonce ct aad =
     (if length nonce < 8 \<or> 128 < length nonce then Inl CipherValueError
      else if take (length (aes @ nonce @ aad)) ct = aes @ nonce @ aad
           then Inr (drop (length (aes @ nonce @ aad)) ct)
           else Inl InvalidTag)"

definition toy_pbkdf2 :: "nat \<Rightarrow> bytes \<Rightarrow> nat \<Rightarrow> bytes \<Rightarrow> bytes" where
  "toy_pbkdf2 len salt n pw = take len (pw @ salt @ replicate len 0)"

definition toy_b64encode :: "bytes \<Rightarrow> string" where
  "toy_b64encode b = map (\<lambda>x. char_of (unat x)) b"

definition toy_b64decode :: "string \<Rightarrow> lib_exn + bytes" where
  "toy_b64decode s = Inr (map of_char s)"

definition toy_utf8_encode :: "string \<Rightarrow> bytes" where
  "toy_utf8_encode s = map of_char s"

definition toy_utf8_decode :: "bytes \<Rightarrow> lib_exn + string" where
  "toy_utf8_decode b = Inr (map (\<lambda>x. char_of (unat x)) b)"

definition toy_welcome :: json where
  "toy_welcome =
     JList [JObj [(''name'', JStr ''decoy_welcome.txt''),
                  (''type'', JStr ''file''),
                  (''data'', JStr (toy_b64encode
                     (map of_char (''Welcome to the decoy vault. Nothing secret here.'' @ [CHR 0x0A]))))]]"

definition toy_dumps :: "json \<Rightarrow> string" where
  "toy_dumps v = (if v = JList [] then ''[]'' else if v = toy_welcome then ''[welcome]'' else ''?'')"

definition toy_loads :: "string \<Rightarrow> lib_exn + json" where
  "toy_loads s =
     (if s = ''[]'' then Inr (JList [])
      else if s = ''[welcome]'' then Inr toy_welcome
      else Inl JSONDecodeError)"

definition toy_lib :: library where
  "toy_lib =
     \<lparr>pbkdf2_hmac_sha256 = toy_pbkdf2, AESGCM = toy_AESGCM, aes_encrypt = toy_encrypt,
      aes_decrypt = toy_decrypt, urlsafe_b64encode = toy_b64encode,
      urlsafe_b64decode = toy_b64decode, utf8_encode = toy_utf8_encode,
      utf8_decode = toy_utf8_decode, json_dumps = toy_dumps, json_loads = toy_loads\<rparr>"

definition toy_world :: world where
  "toy_world =
     \<lparr>entropy = (\<lambda>n. of_nat n), drawn = 0, meta_file = None, real_file = None,
      decoy_file = None\<rparr>"

text \<open>
  Records written by hand: the record the small library's \<open>wrap_cek_with_password\<close> gives
  for a CEK and a password when the random source returns zeros, a real vault record
  with one level, and a real vault record with two levels whose two wrapped records
  hold different CEKs (a substituted L2 record).
\<close>

definition toy_wrapped :: "bytes \<Rightarrow> string \<Rightarrow> json" where
  "toy_wrapped cek pw =
     JObj [(''salt'', JStr (toy_b64encode (replicate 16 0))),
           (''nonce'', JStr (toy_b64encode (replicate 12 0))),
           (''ct'', JStr (toy_b64encode
              (toy_pbkdf2 32 (replicate 16 0) KDF_ITERATIONS (toy_utf8_encode pw)
               @ replicate 12 0 @ AAD_HEADER @ cek)))]"

definition toy_sealed :: "bytes \<Rightarrow> bytes \<Rightarrow> string \<Rightarrow> json" where
  "toy_sealed cek body aad =
     JObj [(''version'', JInt 1),
           (''aad'', JStr aad),
           (''file_ct'', JStr (toy_b64encode (cek @ replicate 12 0 @ AAD_HEADER @ body))),
           (''file_nonce'', JStr (toy_b64encode (replicate 12 0)))]"

definition toy_store_one_level :: json where
  "toy_store_one_level =
     JObj [(''version'', JInt 1),
           (''policy'', JObj [(''requires_l2'', JBool False)]),
           (''wrapped_l1'', toy_wrapped (replicate 32 1) ''a1''),
           (''wrapped_l2'', JNull),
           (''blob'', toy_sealed (replicate 32 1) (toy_utf8_encode ''[]'') (toy_b64encode AAD_HEADER))]"

definition toy_store_mismatch :: json where
  "toy_store_mismatch =
     JObj [(''version'', JInt 1),
           (''policy'', JObj [(''requires_l2'', JBool True)]),
           (''wrapped_l1'', toy_wrapped (replicate 32 1) ''a1''),
           (''wrapped_l2'', toy_wrapped (replicate 32 2) ''a2''),
           (''blob'', toy_sealed (replicate 32 1) (toy_utf8_encode ''[]'') (toy_b64encode AAD_HEADER))]"


definition toy_world_one_level :: world where
  "toy_world_one_level = toy_world\<lparr>real_file := Some toy_store_one_level\<rparr>"

definition toy_world_mismatch :: world where
  "toy_world_mismatch = toy_world\<lparr>real_file := Some toy_store_mismatch\<rparr>"

definition toy_world_foreign_blob :: world where
  "toy_world_foreign_blob =
     toy_world\<lparr>real_file := Some (JObj
       [(''version'', JInt 1),
        (''policy'', JObj [(''requires_l2'', JBool False)]),
        (''wrapped_l1'', toy_wrapped (replicate 32 1) ''a1''),
        (''wrapped_l2'', JNull),
        (''blob'', toy_sealed (replicate 32 2) (toy_utf8_encode ''[]'') (toy_b64encode AAD_HEADER))])\<rparr>"

definition toy_world_decoy :: world where
  "toy_world_decoy =
     toy_world\<lparr>decoy_file := Some (JObj
       [(''version'', JInt 1),
        (''wrapped'', toy_wrapped (replicate 32 3) ''beta''),
        (''blob'', toy_sealed (replicate 32 3) (toy_utf8_encode ''[]'') (toy_b64encode AAD_HEADER))])\<rparr>"

text \<open>
  A world whose random source returns zeros for ever, holding the one-level record,
  whose blob has the all-zero nonce.
\<close>

definition toy_world_repeating :: world where
  "toy_world_repeating =
     \<lparr>entropy = (\<lambda>n. 0), drawn = 0, meta_file = None,
      real_file = Some toy_store_one_level, decoy_file = None\<rparr>"

section \<open>Lemmas about the model and about the small library\<close>

lemma length_urandom_peek: "length (urandom_peek w n) = n"
  by (simp add: urandom_peek_def)

lemma aesgcm_encrypt_InrD:
  assumes "aesgcm_encrypt lib key pt aad w = (Inr (nonce, ct), w')"
  shows "nonce = urandom_peek w NONCE_SIZE \<and> w' = w\<lparr>drawn := drawn w + NONCE_SIZE\<rparr> \<and>
         (\<exists>aes. AESGCM lib key = Inr aes \<and> aes_encrypt lib aes nonce pt aad = Inr ct)"
  using assms
  by (auto simp: aesgcm_encrypt_def os_urandom_def split: sum.splits)

lemma aesgcm_encrypt_ok:
  assumes "aead_accepts lib" "aead_correct lib" "length key = 32"
  shows "\<exists>ct. aesgcm_encrypt lib key pt aad w =
                (Inr (urandom_peek w NONCE_SIZE, ct), w\<lparr>drawn := drawn w + NONCE_SIZE\<rparr>) \<and>
              aesgcm_decrypt lib key (urandom_peek w NONCE_SIZE) ct aad = Inr pt"
proof -
  have len: "length (urandom_peek w NONCE_SIZE) = 12"
    by (simp add: length_urandom_peek NONCE_SIZE_def)
  from assms(1,3) len obtain aes ct where
    a: "AESGCM lib key = Inr aes" and
    c: "aes_encrypt lib aes (urandom_peek w NONCE_SIZE) pt aad = Inr ct"
    unfolding aead_accepts_def by blast
  from assms(2) a c have d: "aes_decrypt lib aes (urandom_peek w NONCE_SIZE) ct aad = Inr pt"
    unfolding aead_correct_def by blast
  have "aesgcm_encrypt lib key pt aad w =
          (Inr (urandom_peek w NONCE_SIZE, ct), w\<lparr>drawn := drawn w + NONCE_SIZE\<rparr>)"
    by (simp add: aesgcm_encrypt_def os_urandom_def a c)
  moreover have "aesgcm_decrypt lib key (urandom_peek w NONCE_SIZE) ct aad = Inr pt"
    by (simp add: aesgcm_decrypt_def a d)
  ultimately show ?thesis by blast
qed

lemma b64decode_b64encode:
  "b64_roundtrip lib \<Longrightarrow> urlsafe_b64decode lib (b64encode lib b) = Inr b"
  by (simp add: b64_roundtrip_def b64encode_def)

lemma derive_key_length:
  "kdf_length lib \<Longrightarrow> length (derive_key lib pw salt n len) = len"
  by (simp add: kdf_length_def derive_key_def)

lemma wrap_cek_ok:
  assumes "library_ok lib"
  shows "\<exists>wrapped. wrap_cek_with_password lib cek pw w =
                     (Inr wrapped, w\<lparr>drawn := drawn w + SALT_SIZE + NONCE_SIZE\<rparr>) \<and>
                   unwrap_cek_with_password lib wrapped pw = Inr cek"
proof -
  from assms have b: "b64_roundtrip lib" and k: "kdf_length lib"
    and a: "aead_accepts lib" and c: "aead_correct lib"
    by (simp_all add: library_ok_def)
  define salt where "salt = urandom_peek w SALT_SIZE"
  define w1 where "w1 = w\<lparr>drawn := drawn w + SALT_SIZE\<rparr>"
  define kek where "kek = derive_key lib pw salt KDF_ITERATIONS 32"
  have "length kek = 32" by (simp add: kek_def derive_key_length [OF k])
  from aesgcm_encrypt_ok [OF a c this, of cek AAD_HEADER w1] obtain ct where
    e: "aesgcm_encrypt lib kek cek AAD_HEADER w1 =
          (Inr (urandom_peek w1 NONCE_SIZE, ct), w1\<lparr>drawn := drawn w1 + NONCE_SIZE\<rparr>)" and
    d: "aesgcm_decrypt lib kek (urandom_peek w1 NONCE_SIZE) ct AAD_HEADER = Inr cek"
    by blast
  let ?wr = "JObj [(''salt'', JStr (b64encode lib salt)),
                   (''nonce'', JStr (b64encode lib (urandom_peek w1 NONCE_SIZE))),
                   (''ct'', JStr (b64encode lib ct))]"
  have "wrap_cek_with_password lib cek pw w = (Inr ?wr, w\<lparr>drawn := drawn w + SALT_SIZE + NONCE_SIZE\<rparr>)"
    using e by (simp add: wrap_cek_with_password_def os_urandom_def salt_def w1_def kek_def)
  moreover have "unwrap_cek_with_password lib ?wr pw = Inr cek"
    using d by (simp add: unwrap_cek_with_password_def b64decode_b64encode [OF b] kek_def)
  ultimately show ?thesis by blast
qed

lemma create_vault_blob_ok:
  assumes "library_ok lib" "length cek = 32"
  shows "\<exists>blob. create_vault_blob lib cek body w =
                  (Inr blob, w\<lparr>drawn := drawn w + NONCE_SIZE\<rparr>) \<and>
                decrypt_vault_blob lib cek blob = Inr body"
proof -
  from assms have b: "b64_roundtrip lib"
    and a: "aead_accepts lib" and c: "aead_correct lib"
    by (simp_all add: library_ok_def)
  from aesgcm_encrypt_ok [OF a c assms(2), of body AAD_HEADER w] obtain ct where
    e: "aesgcm_encrypt lib cek body AAD_HEADER w =
          (Inr (urandom_peek w NONCE_SIZE, ct), w\<lparr>drawn := drawn w + NONCE_SIZE\<rparr>)" and
    d: "aesgcm_decrypt lib cek (urandom_peek w NONCE_SIZE) ct AAD_HEADER = Inr body"
    by blast
  let ?blob = "JObj [(''version'', JInt 1), (''aad'', JStr (b64encode lib AAD_HEADER)),
                     (''file_ct'', JStr (b64encode lib ct)),
                     (''file_nonce'', JStr (b64encode lib (urandom_peek w NONCE_SIZE)))]"
  have "create_vault_blob lib cek body w = (Inr ?blob, w\<lparr>drawn := drawn w + NONCE_SIZE\<rparr>)"
    using e by (simp add: create_vault_blob_def encrypt_payload_with_cek_def)
  moreover have "decrypt_vault_blob lib cek ?blob = Inr body"
    using d by (simp add: decrypt_vault_blob_def decrypt_payload_with_cek_def
        b64decode_b64encode [OF b])
  ultimately show ?thesis by blast
qed

lemma create_vault_blob_InrD:
  assumes "create_vault_blob lib cek body w = (Inr blob, w')"
  shows "\<exists>aes ct. AESGCM lib cek = Inr aes \<and>
           aes_encrypt lib aes (urandom_peek w NONCE_SIZE) body AAD_HEADER = Inr ct \<and>
           blob = JObj [(''version'', JInt 1), (''aad'', JStr (b64encode lib AAD_HEADER)),
                        (''file_ct'', JStr (b64encode lib ct)),
                        (''file_nonce'', JStr (b64encode lib (urandom_peek w NONCE_SIZE)))] \<and>
           w' = w\<lparr>drawn := drawn w + NONCE_SIZE\<rparr>"
proof -
  from assms obtain enc where
    e: "encrypt_payload_with_cek lib cek body w = (Inr enc, w')"
    by (auto simp: create_vault_blob_def split: prod.splits sum.splits)
  then obtain nonce ct where
    a: "aesgcm_encrypt lib cek body AAD_HEADER w = (Inr (nonce, ct), w')" and
    enc: "enc = JObj [(''nonce'', JStr (b64encode lib nonce)), (''ct'', JStr (b64encode lib ct))]"
    by (auto simp: encrypt_payload_with_cek_def split: prod.splits sum.splits)
  from aesgcm_encrypt_InrD [OF a] obtain aes where
    n: "nonce = urandom_peek w NONCE_SIZE" and w': "w' = w\<lparr>drawn := drawn w + NONCE_SIZE\<rparr>" and
    k: "AESGCM lib cek = Inr aes" and c: "aes_encrypt lib aes nonce body AAD_HEADER = Inr ct"
    by blast
  from assms e enc have
    "blob = JObj [(''version'', JInt 1), (''aad'', JStr (b64encode lib AAD_HEADER)),
                  (''file_ct'', JStr (b64encode lib ct)),
                  (''file_nonce'', JStr (b64encode lib nonce))]"
    by (simp add: create_vault_blob_def)
  with n w' k c show ?thesis by blast
qed

lemma create_vault_blob_roundtrip:
  assumes "b64_roundtrip lib" "aead_correct lib"
    and "create_vault_blob lib cek body w = (Inr blob, w')"
  shows "decrypt_vault_blob lib cek blob = Inr body"
proof -
  from create_vault_blob_InrD [OF assms(3)] obtain aes ct where
    k: "AESGCM lib cek = Inr aes" and
    c: "aes_encrypt lib aes (urandom_peek w NONCE_SIZE) body AAD_HEADER = Inr ct" and
    b: "blob = JObj [(''version'', JInt 1), (''aad'', JStr (b64encode lib AAD_HEADER)),
                        (''file_ct'', JStr (b64encode lib ct)),
                        (''file_nonce'', JStr (b64encode lib (urandom_peek w NONCE_SIZE)))]"
    by blast
  from assms(2) k c have "aes_decrypt lib aes (urandom_peek w NONCE_SIZE) ct AAD_HEADER = Inr body"
    unfolding aead_correct_def by blast
  then show ?thesis
    by (simp add: b decrypt_vault_blob_def decrypt_payload_with_cek_def aesgcm_decrypt_def k
        b64decode_b64encode [OF assms(1)])
qed

lemma aesgcm_encrypt_world:
  "\<exists>d. snd (aesgcm_encrypt lib key pt aad w) = w\<lparr>drawn := d\<rparr>"
proof (cases "AESGCM lib key")
  case (Inl e)
  then have "snd (aesgcm_encrypt lib key pt aad w) = w\<lparr>drawn := drawn w\<rparr>"
    by (simp add: aesgcm_encrypt_def)
  then show ?thesis by blast
next
  case (Inr aes)
  then have "snd (aesgcm_encrypt lib key pt aad w) = w\<lparr>drawn := drawn w + NONCE_SIZE\<rparr>"
    by (simp add: aesgcm_encrypt_def os_urandom_def split: sum.splits)
  then show ?thesis by blast
qed

lemma create_vault_blob_world:
  "\<exists>d. snd (create_vault_blob lib cek body w) = w\<lparr>drawn := d\<rparr>"
proof -
  obtain d where "snd (aesgcm_encrypt lib cek body AAD_HEADER w) = w\<lparr>drawn := d\<rparr>"
    using aesgcm_encrypt_world by blast
  then have "snd (create_vault_blob lib cek body w) = w\<lparr>drawn := d\<rparr>"
    by (cases "aesgcm_encrypt lib cek body AAD_HEADER w")
       (auto simp: create_vault_blob_def encrypt_payload_with_cek_def split: sum.splits prod.splits)
  then show ?thesis by blast
qed

lemma toy_byte_char: "of_char (char_of (unat x)) = (x::byte)"
proof -
  have "unat x < 256"
    using unsigned_less [of x, where ?'a = nat] by simp
  then have b: "(of_char (char_of (unat x)) :: nat) = unat x"
    by simp
  have a: "(of_char (char_of (unat x)) :: byte) = of_nat (of_char (char_of (unat x)))"
    by (rule of_nat_of_char [symmetric])
  show ?thesis
    by (simp only: a b) simp
qed

lemma toy_char_byte: "char_of (unat (of_char c :: byte)) = c"
proof -
  have "unat (of_nat (of_char c) :: byte) = (of_char c :: nat)"
    by (simp add: unat_of_nat)
  then have "unat (of_char c :: byte) = (of_char c :: nat)"
    by (simp only: of_nat_of_char)
  then show ?thesis by simp
qed

lemma toy_b64_roundtrip: "b64_roundtrip toy_lib"
  by (simp add: b64_roundtrip_def toy_lib_def toy_b64encode_def toy_b64decode_def
      toy_byte_char o_def)

lemma toy_utf8_roundtrip: "utf8_roundtrip toy_lib"
  by (simp add: utf8_roundtrip_def toy_lib_def toy_utf8_encode_def toy_utf8_decode_def
      toy_char_byte o_def)

lemma toy_kdf_length: "kdf_length toy_lib"
  by (auto simp: kdf_length_def toy_lib_def toy_pbkdf2_def)

lemma toy_aead_accepts: "aead_accepts toy_lib"
  by (simp add: aead_accepts_def toy_lib_def toy_AESGCM_def toy_encrypt_def)

lemma toy_aead_correct: "aead_correct toy_lib"
  by (auto simp: aead_correct_def toy_lib_def toy_AESGCM_def toy_encrypt_def toy_decrypt_def
      split: if_splits)


lemma toy_library_ok: "library_ok toy_lib"
  by (simp add: library_ok_def toy_b64_roundtrip toy_kdf_length toy_aead_accepts toy_aead_correct)




lemma py_get_setitem_other:
  "py_setitem store k v = Inr store' \<Longrightarrow> k' \<noteq> k \<Longrightarrow> py_get store' k' d = py_get store k' d"
  by (cases store) (auto simp: update_conv')

lemma py_getitem_setitem_other:
  "py_setitem store k v = Inr store' \<Longrightarrow> k' \<noteq> k \<Longrightarrow> py_getitem store' k' = py_getitem store k'"
  by (cases store) (auto simp: update_conv')

lemma py_getitem_setitem_same:
  "py_setitem store k v = Inr store' \<Longrightarrow> py_getitem store' k = Inr v"
  by (cases store) (auto simp: update_conv')

lemma ebind_not_Inl:
  "m \<noteq> Inl x \<Longrightarrow> (\<And>y. f y \<noteq> Inl x) \<Longrightarrow> ebind m f \<noteq> Inl x"
  by (cases m) auto

lemma from_lib_not_ValueError: "from_lib m \<noteq> Inl (ValueError s)"
  by (cases m) auto

lemma py_getitem_not_ValueError: "py_getitem v k \<noteq> Inl (ValueError s)"
  by (cases v) (auto split: option.splits)

lemma b64decode_not_ValueError: "b64decode lib v \<noteq> Inl (ValueError s)"
  by (cases v) (auto simp: from_lib_not_ValueError)

lemma aesgcm_decrypt_not_ValueError: "aesgcm_decrypt lib k n c a \<noteq> Inl (ValueError s)"
  unfolding aesgcm_decrypt_def
  by (intro ebind_not_Inl from_lib_not_ValueError)

lemma unwrap_not_ValueError: "unwrap_cek_with_password lib wr pw \<noteq> Inl (ValueError s)"
  unfolding unwrap_cek_with_password_def
  by (intro ebind_not_Inl py_getitem_not_ValueError b64decode_not_ValueError
      aesgcm_decrypt_not_ValueError)

lemma decrypt_vault_blob_not_ValueError: "decrypt_vault_blob lib k b \<noteq> Inl (ValueError s)"
  unfolding decrypt_vault_blob_def decrypt_payload_with_cek_def
  by (intro ebind_not_Inl py_getitem_not_ValueError b64decode_not_ValueError
      aesgcm_decrypt_not_ValueError)

lemma loads_body_not_ValueError: "loads_body lib b \<noteq> Inl (ValueError s)"
  unfolding loads_body_def
  by (intro ebind_not_Inl from_lib_not_ValueError)

lemma create_vault_blob_not_ValueError:
  "fst (create_vault_blob lib cek body w) \<noteq> Inl (ValueError s)"
  by (auto simp: create_vault_blob_def encrypt_payload_with_cek_def aesgcm_encrypt_def
      os_urandom_def split: sum.splits prod.splits)

lemma ebind_eq_Inr: "(ebind m f = Inr y) = (\<exists>x. m = Inr x \<and> f x = Inr y)"
  by (cases m) auto

lemma wrap_cek_InrD:
  assumes "wrap_cek_with_password lib cek pw w = (Inr wrapped, w')"
  shows "\<exists>aes ct. AESGCM lib (derive_key lib pw (urandom_peek w SALT_SIZE) KDF_ITERATIONS 32) = Inr aes \<and>
           aes_encrypt lib aes (urandom_peek (w\<lparr>drawn := drawn w + SALT_SIZE\<rparr>) NONCE_SIZE) cek AAD_HEADER = Inr ct \<and>
           wrapped = JObj [(''salt'', JStr (b64encode lib (urandom_peek w SALT_SIZE))),
                           (''nonce'', JStr (b64encode lib (urandom_peek (w\<lparr>drawn := drawn w + SALT_SIZE\<rparr>) NONCE_SIZE))),
                           (''ct'', JStr (b64encode lib ct))] \<and>
           w' = w\<lparr>drawn := drawn w + SALT_SIZE + NONCE_SIZE\<rparr>"
proof -
  let ?w1 = "w\<lparr>drawn := drawn w + SALT_SIZE\<rparr>"
  let ?kek = "derive_key lib pw (urandom_peek w SALT_SIZE) KDF_ITERATIONS 32"
  from assms obtain nonce ct where
    a: "aesgcm_encrypt lib ?kek cek AAD_HEADER ?w1 = (Inr (nonce, ct), w')" and
    wr: "wrapped = JObj [(''salt'', JStr (b64encode lib (urandom_peek w SALT_SIZE))),
                         (''nonce'', JStr (b64encode lib nonce)),
                         (''ct'', JStr (b64encode lib ct))]"
    by (auto simp: wrap_cek_with_password_def os_urandom_def split: prod.splits sum.splits)
  from aesgcm_encrypt_InrD [OF a] wr show ?thesis by auto
qed

lemma wrap_cek_world:
  "\<exists>d. snd (wrap_cek_with_password lib cek pw w) = w\<lparr>drawn := d\<rparr>"
proof -
  let ?w1 = "w\<lparr>drawn := drawn w + SALT_SIZE\<rparr>"
  let ?kek = "derive_key lib pw (urandom_peek w SALT_SIZE) KDF_ITERATIONS 32"
  obtain d where d: "snd (aesgcm_encrypt lib ?kek cek AAD_HEADER ?w1) = ?w1\<lparr>drawn := d\<rparr>"
    using aesgcm_encrypt_world by blast
  have "snd (wrap_cek_with_password lib cek pw w) = w\<lparr>drawn := d\<rparr>"
    using d by (cases "aesgcm_encrypt lib ?kek cek AAD_HEADER ?w1")
      (auto simp: wrap_cek_with_password_def os_urandom_def split: sum.splits prod.splits)
  then show ?thesis by blast
qed




lemma save_real_items_InrD:
  assumes "save_real_items lib l1 l2 items w = (Inr (), w')"
  shows "\<exists>store wl1 cek blob store'.
           real_file w = Some store \<and>
           py_getitem store ''wrapped_l1'' = Inr wl1 \<and>
           unwrap_cek_with_password lib wl1 l1 = Inr cek \<and>
           create_vault_blob lib cek (dumps_body lib items) w =
             (Inr blob, w\<lparr>drawn := drawn w + NONCE_SIZE\<rparr>) \<and>
           py_setitem store ''blob'' blob = Inr store' \<and>
           w' = w\<lparr>drawn := drawn w + NONCE_SIZE, real_file := Some store'\<rparr>"
proof (cases "real_file w")
  case None
  with assms show ?thesis
    by (simp add: save_real_items_def read_json_def)
next
  case (Some store)
  from assms Some obtain wl1 cek blob w1 store' where
    g: "py_getitem store ''wrapped_l1'' = Inr wl1" and
    u: "unwrap_cek_with_password lib wl1 l1 = Inr cek" and
    c: "create_vault_blob lib cek (dumps_body lib items) w = (Inr blob, w1)" and
    s: "py_setitem store ''blob'' blob = Inr store'" and
    w': "w' = w1\<lparr>real_file := Some store'\<rparr>"
    by (auto simp: save_real_items_def read_json_def ebind_eq_Inr
        split: sum.splits prod.splits if_splits option.splits)
  from create_vault_blob_InrD [OF c] have "w1 = w\<lparr>drawn := drawn w + NONCE_SIZE\<rparr>"
    by blast
  with Some g u c s w' show ?thesis by auto
qed

lemma world_self: "\<exists>d. w = w\<lparr>drawn := d\<rparr>"
  by (rule exI [of _ "drawn w"]) simp

lemma save_real_items_InlD:
  assumes "save_real_items lib l1 l2 items w = (Inl e, w')"
  shows "\<exists>d. w' = w\<lparr>drawn := d\<rparr>"
proof -
  have c: "\<forall>cek. \<exists>d. snd (create_vault_blob lib cek (dumps_body lib items) w) = w\<lparr>drawn := d\<rparr>"
    using create_vault_blob_world by blast
  from assms consider "w' = w"
    | cek r where "create_vault_blob lib cek (dumps_body lib items) w = (r, w')"
    by (auto simp: save_real_items_def split: sum.splits prod.splits)
  then show ?thesis
  proof cases
    case 1
    then show ?thesis using world_self by simp
  next
    case 2
    then have "snd (create_vault_blob lib cek (dumps_body lib items) w) = w'" by simp
    with c show ?thesis by metis
  qed
qed

lemma toy_decode_encode: "toy_b64decode (toy_b64encode b) = Inr b"
  using toy_b64_roundtrip by (simp add: b64_roundtrip_def toy_lib_def)

lemma toy_pbkdf2_length: "length (toy_pbkdf2 len salt n pw) = len"
  by (auto simp: toy_pbkdf2_def)

lemma toy_decrypt_own:
  "length k = 32 \<Longrightarrow> toy_decrypt k (replicate 12 0) (k @ replicate 12 0 @ a @ pt) a = Inr pt"
  by (simp add: toy_decrypt_def)

lemma toy_decrypt_other:
  "length k = 32 \<Longrightarrow> length k' = 32 \<Longrightarrow> k \<noteq> k' \<Longrightarrow>
   toy_decrypt k' (replicate 12 0) (k @ replicate 12 0 @ a @ pt) a = Inl InvalidTag"
  by (simp add: toy_decrypt_def)

lemma toy_unwrap_own:
  "unwrap_cek_with_password toy_lib (toy_wrapped cek pw) pw = Inr cek"
  by (simp add: unwrap_cek_with_password_def toy_wrapped_def toy_lib_def toy_decode_encode
      derive_key_def aesgcm_decrypt_def toy_AESGCM_def toy_pbkdf2_length toy_decrypt_own)

lemma toy_unwrap_other:
  assumes "toy_pbkdf2 32 (replicate 16 0) KDF_ITERATIONS (toy_utf8_encode pw) \<noteq>
           toy_pbkdf2 32 (replicate 16 0) KDF_ITERATIONS (toy_utf8_encode pw')"
  shows "unwrap_cek_with_password toy_lib (toy_wrapped cek pw) pw' = Inl (LibraryError InvalidTag)"
  using assms
  by (simp add: unwrap_cek_with_password_def toy_wrapped_def toy_lib_def toy_decode_encode
      derive_key_def aesgcm_decrypt_def toy_AESGCM_def toy_pbkdf2_length toy_decrypt_other)

lemma toy_of_char_eq: "((of_char c :: byte) = of_char d) = (c = d)"
proof
  assume "(of_char c :: byte) = of_char d"
  then have "char_of (unat (of_char c :: byte)) = char_of (unat (of_char d :: byte))"
    by simp
  then show "c = d" by (simp only: toy_char_byte)
qed simp

lemma toy_kdf_differs:
  "c \<noteq> d \<Longrightarrow> toy_pbkdf2 32 salt n (toy_utf8_encode (c # s)) \<noteq> toy_pbkdf2 32 salt n (toy_utf8_encode (d # t))"
  by (simp add: toy_pbkdf2_def toy_utf8_encode_def toy_of_char_eq)

lemma toy_open_sealed:
  "length cek = 32 \<Longrightarrow> decrypt_vault_blob toy_lib cek (toy_sealed cek body aad) = Inr body"
  by (simp add: decrypt_vault_blob_def decrypt_payload_with_cek_def toy_sealed_def toy_lib_def
      toy_decode_encode aesgcm_decrypt_def toy_AESGCM_def toy_decrypt_own)

lemma toy_ceks_differ: "replicate 32 (1::byte) \<noteq> replicate 32 2"
  by simp

lemma toy_utf8_decode_encode: "toy_utf8_decode (toy_utf8_encode s) = Inr s"
  using toy_utf8_roundtrip by (simp add: utf8_roundtrip_def toy_lib_def)

lemma toy_loads_empty: "loads_body toy_lib (toy_utf8_encode ''[]'') = Inr (JList [])"
  by (simp add: loads_body_def toy_lib_def toy_utf8_decode_encode toy_loads_def)

lemma toy_unlock_one_level:
  "unlock_real toy_lib toy_world_one_level ''a1'' l2 = Inr (JList [])"
  by (simp add: unlock_real_def read_json_def toy_world_one_level_def toy_store_one_level_def
      toy_unwrap_own toy_open_sealed toy_loads_empty)

lemma toy_save_one_level:
  "fst (save_real_items toy_lib ''a1'' l2 (JList []) toy_world_one_level) = Inr ()"
proof -
  obtain blob w1 where
    c: "create_vault_blob toy_lib (replicate 32 1) (dumps_body toy_lib (JList [])) toy_world_one_level =
          (Inr blob, w1)"
    using create_vault_blob_ok [OF toy_library_ok, of "replicate 32 1"
        "dumps_body toy_lib (JList [])" toy_world_one_level]
    by auto
  have r: "real_file toy_world_one_level = Some toy_store_one_level"
    by (simp add: toy_world_one_level_def)
  show ?thesis
    by (simp add: save_real_items_def read_json_def r c)
       (simp add: toy_store_one_level_def toy_unwrap_own c)
qed

lemma toy_entropy_differs_from_zero:
  "urandom_peek toy_world_one_level NONCE_SIZE \<noteq> replicate 12 0"
proof
  assume "urandom_peek toy_world_one_level NONCE_SIZE = replicate 12 0"
  then have "urandom_peek toy_world_one_level NONCE_SIZE ! 1 = replicate 12 (0::byte) ! 1"
    by simp
  then show False
    by (simp add: urandom_peek_def NONCE_SIZE_def toy_world_one_level_def toy_world_def)
qed

lemma toy_entropy_blocks_differ:
  "map (entropy toy_world) [drawn toy_world ..< drawn toy_world + 12] \<noteq>
   map (entropy toy_world) [drawn toy_world + 12 ..< drawn toy_world + 24]"
proof
  assume "map (entropy toy_world) [drawn toy_world ..< drawn toy_world + 12] =
          map (entropy toy_world) [drawn toy_world + 12 ..< drawn toy_world + 24]"
  then have "map (entropy toy_world) [drawn toy_world ..< drawn toy_world + 12] ! 0 =
          map (entropy toy_world) [drawn toy_world + 12 ..< drawn toy_world + 24] ! 0"
    by simp
  then show False
    by (simp add: toy_world_def)
qed

lemma urandom_peek_cong:
  "entropy w' = entropy w \<Longrightarrow> drawn w' = drawn w \<Longrightarrow> urandom_peek w' n = urandom_peek w n"
  by (simp add: urandom_peek_def)

lemma init_new_InrD:
  assumes "init_new lib l1 l2 d w = (Inr (), w')"
  shows "\<exists>blob wl1 wl2 dblob wd w1 w2 w3 w4 w6 w7 w8.
           entropy w1 = entropy w \<and> drawn w1 = drawn w + CEK_SIZE \<and>
           create_vault_blob lib (urandom_peek w CEK_SIZE) (dumps_body lib (JList [])) w1 = (Inr blob, w2) \<and>
           wrap_cek_with_password lib (urandom_peek w CEK_SIZE) l1 w2 = (Inr wl1, w3) \<and>
           (case l2 of None \<Rightarrow> wl2 = JNull \<and> w4 = w3
            | Some p2 \<Rightarrow> if p2 \<noteq> [] then wrap_cek_with_password lib (urandom_peek w CEK_SIZE) p2 w3 = (Inr wl2, w4)
                         else wl2 = JNull \<and> w4 = w3) \<and>
           real_file w' = Some (JObj [(''version'', JInt 1),
                                 (''policy'', JObj [(''requires_l2'', JBool (str_truthy l2))]),
                                 (''wrapped_l1'', wl1),
                                 (''wrapped_l2'', wl2),
                                 (''blob'', blob)]) \<and>
           entropy w6 = entropy w \<and> drawn w6 = drawn w4 + CEK_SIZE \<and>
           create_vault_blob lib (urandom_peek w4 CEK_SIZE) (dumps_body lib (decoy_items lib)) w6 = (Inr dblob, w7) \<and>
           wrap_cek_with_password lib (urandom_peek w4 CEK_SIZE) d w7 = (Inr wd, w8) \<and>
           decoy_file w' = Some (JObj [(''version'', JInt 1), (''wrapped'', wd), (''blob'', dblob)])"
proof -
  let ?meta = "JObj [(''version'', JInt 1),
                       (''real'', JObj [(''file'', JStr REAL_FILENAME),
                                        (''two_level'', JBool (str_truthy l2))]),
                       (''decoy'', JObj [(''file'', JStr DECOY_FILENAME)])]"
  let ?cek = "urandom_peek w CEK_SIZE"
  let ?w1 = "w\<lparr>meta_file := Some ?meta, drawn := drawn w + CEK_SIZE\<rparr>"
  have c0: "create_cek (w\<lparr>meta_file := Some ?meta\<rparr>) = (?cek, ?w1)"
    by (simp add: create_cek_def os_urandom_def urandom_peek_def)
  obtain r2 w2 where c1: "create_vault_blob lib ?cek (dumps_body lib (JList [])) ?w1 = (r2, w2)"
    by (cases "create_vault_blob lib ?cek (dumps_body lib (JList [])) ?w1")
  from assms c0 c1 obtain blob where r2: "r2 = Inr blob"
    by (cases r2) (auto simp: init_new_def Let_def)
  obtain r3 w3 where c2: "wrap_cek_with_password lib ?cek l1 w2 = (r3, w3)"
    by (cases "wrap_cek_with_password lib ?cek l1 w2")
  from assms c0 c1 r2 c2 obtain wl1 where r3: "r3 = Inr wl1"
    by (cases r3) (auto simp: init_new_def Let_def)
  let ?s4 = "(case l2 of
                  None \<Rightarrow> (Inr JNull, w3)
                | Some p2 \<Rightarrow> if p2 \<noteq> [] then wrap_cek_with_password lib ?cek p2 w3
                             else (Inr JNull, w3))"
  obtain r4 w4 where c3: "?s4 = (r4, w4)"
    by (cases ?s4)
  from assms c0 c1 r2 c2 r3 c3 obtain wl2 where r4: "r4 = Inr wl2"
    by (cases r4) (auto simp: init_new_def Let_def)
  let ?real = "JObj [(''version'', JInt 1),
                                 (''policy'', JObj [(''requires_l2'', JBool (str_truthy l2))]),
                                 (''wrapped_l1'', wl1),
                                 (''wrapped_l2'', wl2),
                                 (''blob'', blob)]"
  let ?w5 = "w4\<lparr>real_file := Some ?real\<rparr>"
  let ?dcek = "urandom_peek w4 CEK_SIZE"
  let ?w6 = "w4\<lparr>real_file := Some ?real, drawn := drawn w4 + CEK_SIZE\<rparr>"
  have c5: "create_cek ?w5 = (?dcek, ?w6)"
    by (simp add: create_cek_def os_urandom_def urandom_peek_def)
  obtain r7 w7 where c6: "create_vault_blob lib ?dcek (dumps_body lib (decoy_items lib)) ?w6 = (r7, w7)"
    by (cases "create_vault_blob lib ?dcek (dumps_body lib (decoy_items lib)) ?w6")
  from assms c0 c1 r2 c2 r3 c3 r4 c5 c6 obtain dblob where r7: "r7 = Inr dblob"
    by (cases r7) (auto simp: init_new_def Let_def)
  obtain r8 w8 where c7: "wrap_cek_with_password lib ?dcek d w7 = (r8, w8)"
    by (cases "wrap_cek_with_password lib ?dcek d w7")
  from assms c0 c1 r2 c2 r3 c3 r4 c5 c6 r7 c7 obtain wd where r8: "r8 = Inr wd"
    by (cases r8) (auto simp: init_new_def Let_def)
  from assms c0 c1 r2 c2 r3 c3 r4 c5 c6 r7 c7 r8 have
    w': "w' = w8\<lparr>decoy_file := Some (JObj [(''version'', JInt 1), (''wrapped'', wd), (''blob'', dblob)])\<rparr>"
    by (simp add: init_new_def Let_def)
  \<comment> \<open>the worlds between the steps differ in the number of bytes drawn only\<close>
  from create_vault_blob_world [of lib ?cek "dumps_body lib (JList [])" ?w1] c1
  obtain d2 where w2: "w2 = ?w1\<lparr>drawn := d2\<rparr>" by auto
  from wrap_cek_world [of lib ?cek l1 w2] c2
  obtain d3 where w3: "w3 = w2\<lparr>drawn := d3\<rparr>" by auto
  have "\<exists>d4. w4 = w3\<lparr>drawn := d4\<rparr>"
  proof (cases l2)
    case None
    with c3 show ?thesis using world_self [of w3] by simp
  next
    case (Some p2)
    show ?thesis
    proof (cases "p2 = []")
      case True
      with Some c3 show ?thesis using world_self [of w3] by simp
    next
      case False
      with Some c3 wrap_cek_world [of lib ?cek p2 w3] show ?thesis by auto
    qed
  qed
  then obtain d4 where w4: "w4 = w3\<lparr>drawn := d4\<rparr>" by blast
  from create_vault_blob_world [of lib ?dcek "dumps_body lib (decoy_items lib)" ?w6] c6
  obtain d7 where w7: "w7 = ?w6\<lparr>drawn := d7\<rparr>" by auto
  from wrap_cek_world [of lib ?dcek d w7] c7
  obtain d8 where w8: "w8 = w7\<lparr>drawn := d8\<rparr>" by auto
  have e4: "entropy w4 = entropy w"
    by (simp add: w4 w3 w2)
  have rf: "real_file w' = Some ?real"
    by (simp add: w' w8 w7)
  have df: "decoy_file w' = Some (JObj [(''version'', JInt 1), (''wrapped'', wd), (''blob'', dblob)])"
    by (simp add: w')
  have l2c: "(case l2 of None \<Rightarrow> wl2 = JNull \<and> w4 = w3
            | Some p2 \<Rightarrow> if p2 \<noteq> [] then wrap_cek_with_password lib ?cek p2 w3 = (Inr wl2, w4)
                         else wl2 = JNull \<and> w4 = w3)"
    using c3 r4 by (auto split: option.splits if_splits)
  have "entropy ?w1 = entropy w \<and> drawn ?w1 = drawn w + CEK_SIZE"
    by simp
  moreover have "entropy ?w6 = entropy w \<and> drawn ?w6 = drawn w4 + CEK_SIZE"
    using e4 by simp
  ultimately show ?thesis
    using c1 r2 c2 r3 l2c rf c6 r7 c7 r8 df by blast
qed

lemma init_new_ok:
  assumes "library_ok lib"
  shows "\<exists>w'. init_new lib l1 l2 d w = (Inr (), w')"
proof -
  let ?meta = "JObj [(''version'', JInt 1),
                       (''real'', JObj [(''file'', JStr REAL_FILENAME),
                                        (''two_level'', JBool (str_truthy l2))]),
                       (''decoy'', JObj [(''file'', JStr DECOY_FILENAME)])]"
  let ?w0 = "w\<lparr>meta_file := Some ?meta\<rparr>"
  obtain cek w1 where c0: "create_cek ?w0 = (cek, w1)"
    by (cases "create_cek ?w0")
  then have lc: "length cek = 32"
    by (auto simp: create_cek_def os_urandom_def length_urandom_peek CEK_SIZE_def)
  obtain blob w2 where c1: "create_vault_blob lib cek (dumps_body lib (JList [])) w1 = (Inr blob, w2)"
    using create_vault_blob_ok [OF assms lc] by blast
  obtain wl1 w3 where c2: "wrap_cek_with_password lib cek l1 w2 = (Inr wl1, w3)"
    using wrap_cek_ok [OF assms] by blast
  let ?s4 = "(case l2 of
                  None \<Rightarrow> (Inr JNull, w3)
                | Some p2 \<Rightarrow> if p2 \<noteq> [] then wrap_cek_with_password lib cek p2 w3
                             else (Inr JNull, w3))"
  have "\<exists>wl2 w4. ?s4 = (Inr wl2, w4)"
  proof (cases l2)
    case None
    then show ?thesis by simp
  next
    case (Some p2)
    then show ?thesis using wrap_cek_ok [OF assms, of cek p2 w3] by auto
  qed
  then obtain wl2 w4 where c3: "?s4 = (Inr wl2, w4)" by blast
  let ?real = "JObj [(''version'', JInt 1),
                                 (''policy'', JObj [(''requires_l2'', JBool (str_truthy l2))]),
                                 (''wrapped_l1'', wl1),
                                 (''wrapped_l2'', wl2),
                                 (''blob'', blob)]"
  let ?w5 = "w4\<lparr>real_file := Some ?real\<rparr>"
  obtain dcek w6 where c5: "create_cek ?w5 = (dcek, w6)"
    by (cases "create_cek ?w5")
  then have ld: "length dcek = 32"
    by (auto simp: create_cek_def os_urandom_def length_urandom_peek CEK_SIZE_def)
  obtain dblob w7 where c6: "create_vault_blob lib dcek (dumps_body lib (decoy_items lib)) w6 = (Inr dblob, w7)"
    using create_vault_blob_ok [OF assms ld] by blast
  obtain wd w8 where c7: "wrap_cek_with_password lib dcek d w7 = (Inr wd, w8)"
    using wrap_cek_ok [OF assms] by blast
  have "init_new lib l1 l2 d w =
          (Inr (), w8\<lparr>decoy_file := Some (JObj [(''version'', JInt 1), (''wrapped'', wd), (''blob'', dblob)])\<rparr>)"
    by (simp add: init_new_def Let_def c0 c1 c2 c3 c5 c6 c7)
  then show ?thesis by blast
qed

lemma record_invariant_setitem_blob:
  assumes "py_setitem store ''blob'' blob = Inr store'"
  shows "wrapped_l2_present store' = wrapped_l2_present store \<and>
         policy_requires_l2 store' = policy_requires_l2 store"
  using py_getitem_setitem_other [OF assms, of "''wrapped_l2''"]
    py_get_setitem_other [OF assms, of "''policy''"]
  by (simp add: wrapped_l2_present_def policy_requires_l2_def)

lemma save_real_items_unwrap_error:
  assumes "real_file w = Some store"
    and "py_get store ''policy'' (JObj []) = Inr policy"
    and "py_get policy ''requires_l2'' (JBool False) = Inr r"
    and "py_getitem store ''wrapped_l1'' = Inr wl1"
    and "unwrap_cek_with_password lib wl1 l1 = Inl e"
  shows "save_real_items lib l1 l2 items w = (Inl e, w)"
  using assms by (simp add: save_real_items_def read_json_def)

lemma save_decoy_items_unwrap_error:
  assumes "decoy_file w = Some store"
    and "py_getitem store ''wrapped'' = Inr wr"
    and "unwrap_cek_with_password lib wr p = Inl e"
  shows "save_decoy_items lib p items w = (Inl e, w)"
  using assms by (simp add: save_decoy_items_def read_json_def)

lemma toy_open_foreign:
  "length cek = 32 \<Longrightarrow> length cek' = 32 \<Longrightarrow> cek \<noteq> cek' \<Longrightarrow>
   decrypt_vault_blob toy_lib cek' (toy_sealed cek body aad) = Inl (LibraryError InvalidTag)"
  by (simp add: decrypt_vault_blob_def decrypt_payload_with_cek_def toy_sealed_def toy_lib_def
      toy_decode_encode aesgcm_decrypt_def toy_AESGCM_def toy_decrypt_other)

lemma toy_peek_repeating: "urandom_peek toy_world_repeating NONCE_SIZE = replicate 12 0"
  by (simp add: urandom_peek_def toy_world_repeating_def NONCE_SIZE_def map_replicate_const)

lemma toy_seal_repeating:
  "create_vault_blob toy_lib (replicate 32 1) body toy_world_repeating =
     (Inr (toy_sealed (replicate 32 1) body (toy_b64encode AAD_HEADER)),
      toy_world_repeating\<lparr>drawn := 12\<rparr>)"
proof -
  have d: "drawn toy_world_repeating + NONCE_SIZE = 12"
    by (simp add: toy_world_repeating_def NONCE_SIZE_def)
  have k: "AESGCM toy_lib (replicate 32 1) = Inr (replicate 32 1)"
    by (simp add: toy_lib_def toy_AESGCM_def)
  have e: "aes_encrypt toy_lib (replicate 32 1) (replicate 12 0) body AAD_HEADER =
             Inr (replicate 32 1 @ replicate 12 0 @ AAD_HEADER @ body)"
    by (simp add: toy_lib_def toy_encrypt_def)
  have b: "b64encode toy_lib x = toy_b64encode x" for x
    by (simp add: b64encode_def toy_lib_def)
  show ?thesis
    by (simp add: create_vault_blob_def encrypt_payload_with_cek_def aesgcm_encrypt_def
        os_urandom_def toy_peek_repeating d k e b toy_sealed_def)
qed

lemma toy_dumps_welcome: "dumps_body toy_lib toy_welcome = toy_utf8_encode ''[welcome]''"
proof -
  have "toy_welcome \<noteq> JList []"
    by (simp add: toy_welcome_def)
  then show ?thesis
    by (simp add: dumps_body_def toy_lib_def toy_dumps_def)
qed




section \<open>The claims\<close>

text \<open>
  C1. On a real vault record whose policy requires L2: when \<open>wrapped_l1\<close> unwraps under
  the L1 password to a CEK and \<open>wrapped_l2\<close> unwraps under the supplied, non-empty L2
  password to a different CEK, \<open>unlock_real\<close> fails with
  \<open>ValueError("unable to unlock vault")\<close>, the failure it raises for a wrong password,
  although both unwraps succeeded. The hypotheses say nothing about the \<open>blob\<close> field,
  and the outcome stays the same when the blob is replaced by any value: the blob is
  never decrypted.
\<close>

theorem unlock_real_rejects_cek_mismatch:
  assumes "real_file w = Some store"
    and "py_get store ''policy'' (JObj []) = Inr policy"
    and "py_get policy ''requires_l2'' (JBool False) = Inr r"
    and "py_truthy r"
    and "py_getitem store ''wrapped_l1'' = Inr wl1"
    and "unwrap_cek_with_password lib wl1 l1 = Inr cek_a"
    and "py_getitem store ''wrapped_l2'' = Inr wl2"
    and "p2 \<noteq> []"
    and "unwrap_cek_with_password lib wl2 p2 = Inr cek_b"
    and "cek_a \<noteq> cek_b"
  shows "unlock_real lib w l1 (Some p2) = Inl (ValueError ''unable to unlock vault'') \<and>
         (\<forall>b store'. py_setitem store ''blob'' b = Inr store' \<longrightarrow>
            unlock_real lib (w\<lparr>real_file := Some store'\<rparr>) l1 (Some p2) =
              Inl (ValueError ''unable to unlock vault''))"
proof -
  have 1: "unlock_real lib w l1 (Some p2) = Inl (ValueError ''unable to unlock vault'')"
    using assms by (simp add: unlock_real_def read_json_def)
  have 2: "unlock_real lib (w\<lparr>real_file := Some store'\<rparr>) l1 (Some p2) =
              Inl (ValueError ''unable to unlock vault'')"
    if s: "py_setitem store ''blob'' b = Inr store'" for b store'
    using assms py_get_setitem_other [OF s, of "''policy''"]
      py_getitem_setitem_other [OF s, of "''wrapped_l1''"]
      py_getitem_setitem_other [OF s, of "''wrapped_l2''"]
    by (simp add: unlock_real_def read_json_def)
  from 1 2 show ?thesis by blast
qed

theorem unlock_real_rejects_cek_mismatch_witness:
  "real_file toy_world_mismatch = Some toy_store_mismatch \<and>
   py_get toy_store_mismatch ''policy'' (JObj []) = Inr (JObj [(''requires_l2'', JBool True)]) \<and>
   py_get (JObj [(''requires_l2'', JBool True)]) ''requires_l2'' (JBool False) = Inr (JBool True) \<and>
   py_truthy (JBool True) \<and>
   py_getitem toy_store_mismatch ''wrapped_l1'' = Inr (toy_wrapped (replicate 32 1) ''a1'') \<and>
   unwrap_cek_with_password toy_lib (toy_wrapped (replicate 32 1) ''a1'') ''a1'' = Inr (replicate 32 1) \<and>
   py_getitem toy_store_mismatch ''wrapped_l2'' = Inr (toy_wrapped (replicate 32 2) ''a2'') \<and>
   ''a2'' \<noteq> [] \<and>
   unwrap_cek_with_password toy_lib (toy_wrapped (replicate 32 2) ''a2'') ''a2'' = Inr (replicate 32 2) \<and>
   replicate 32 (1::byte) \<noteq> replicate 32 2 \<and>
   unlock_real toy_lib toy_world_mismatch ''a1'' (Some ''a2'') =
     Inl (ValueError ''unable to unlock vault'') \<and>
   unlock_real toy_lib (toy_world_mismatch\<lparr>real_file := Some (JObj (AList.update ''blob'' JNull
       [(''version'', JInt 1), (''policy'', JObj [(''requires_l2'', JBool True)]),
        (''wrapped_l1'', toy_wrapped (replicate 32 1) ''a1''),
        (''wrapped_l2'', toy_wrapped (replicate 32 2) ''a2''),
        (''blob'', toy_sealed (replicate 32 1) (toy_utf8_encode ''[]'') (toy_b64encode AAD_HEADER))]))\<rparr>)
     ''a1'' (Some ''a2'') = Inl (ValueError ''unable to unlock vault'')"
proof -
  have h1: "real_file toy_world_mismatch = Some toy_store_mismatch"
    by (simp add: toy_world_mismatch_def)
  have h2: "py_get toy_store_mismatch ''policy'' (JObj []) = Inr (JObj [(''requires_l2'', JBool True)])"
    by (simp add: toy_store_mismatch_def)
  have h3: "py_get (JObj [(''requires_l2'', JBool True)]) ''requires_l2'' (JBool False) = Inr (JBool True)"
    by simp
  have h4: "py_truthy (JBool True)" by simp
  have h5: "py_getitem toy_store_mismatch ''wrapped_l1'' = Inr (toy_wrapped (replicate 32 1) ''a1'')"
    by (simp add: toy_store_mismatch_def)
  have h6: "unwrap_cek_with_password toy_lib (toy_wrapped (replicate 32 1) ''a1'') ''a1'' = Inr (replicate 32 1)"
    by (rule toy_unwrap_own)
  have h7: "py_getitem toy_store_mismatch ''wrapped_l2'' = Inr (toy_wrapped (replicate 32 2) ''a2'')"
    by (simp add: toy_store_mismatch_def)
  have h8: "''a2'' \<noteq> []" by simp
  have h9: "unwrap_cek_with_password toy_lib (toy_wrapped (replicate 32 2) ''a2'') ''a2'' = Inr (replicate 32 2)"
    by (rule toy_unwrap_own)
  have h10: "replicate 32 (1::byte) \<noteq> replicate 32 2" by simp
  have s: "py_setitem toy_store_mismatch ''blob'' JNull = Inr (JObj (AList.update ''blob'' JNull
       [(''version'', JInt 1), (''policy'', JObj [(''requires_l2'', JBool True)]),
        (''wrapped_l1'', toy_wrapped (replicate 32 1) ''a1''),
        (''wrapped_l2'', toy_wrapped (replicate 32 2) ''a2''),
        (''blob'', toy_sealed (replicate 32 1) (toy_utf8_encode ''[]'') (toy_b64encode AAD_HEADER))]))"
    by (simp add: toy_store_mismatch_def)
  from unlock_real_rejects_cek_mismatch [OF h1 h2 h3 h4 h5 h6 h7 h8 h9 h10] s
  show ?thesis using h1 h2 h3 h4 h5 h6 h7 h8 h9 h10 by blast
qed

text \<open>
  C2. The claim that every unwrap or open failure reaches the caller as one of the two
  opaque \<open>ValueError\<close>s does not hold of the code. With a wrong password
  \<open>save_real_items\<close> and \<open>save_decoy_items\<close> hand the library's \<open>InvalidTag\<close> to the
  caller unchanged, on records where \<open>unlock_real\<close> and \<open>unlock_decoy\<close> raise their
  \<open>ValueError\<close>; and \<open>unlock_real\<close>, given the right password for a record whose blob
  was sealed under another key, hands \<open>InvalidTag\<close> to the caller too, since the blob is
  decrypted outside of the \<open>try\<close> blocks.
\<close>

theorem library_exception_crosses_boundary:
  "save_real_items toy_lib ''wrong'' None (JList []) toy_world_one_level =
     (Inl (LibraryError InvalidTag), toy_world_one_level) \<and>
   unlock_real toy_lib toy_world_one_level ''wrong'' None =
     Inl (ValueError ''unable to unlock vault'') \<and>
   save_decoy_items toy_lib ''wrong'' (JList []) toy_world_decoy =
     (Inl (LibraryError InvalidTag), toy_world_decoy) \<and>
   unlock_decoy toy_lib toy_world_decoy ''wrong'' =
     Inl (ValueError ''unable to unlock decoy'') \<and>
   unlock_real toy_lib toy_world_foreign_blob ''a1'' None = Inl (LibraryError InvalidTag)"
proof -
  have bad1: "unwrap_cek_with_password toy_lib (toy_wrapped (replicate 32 1) ''a1'') ''wrong'' =
     Inl (LibraryError InvalidTag)"
    by (rule toy_unwrap_other) (simp add: toy_kdf_differs)
  have bad2: "unwrap_cek_with_password toy_lib (toy_wrapped (replicate 32 3) ''beta'') ''wrong'' =
     Inl (LibraryError InvalidTag)"
    by (rule toy_unwrap_other) (simp add: toy_kdf_differs)
  have 1: "save_real_items toy_lib ''wrong'' None (JList []) toy_world_one_level =
     (Inl (LibraryError InvalidTag), toy_world_one_level)"
    by (simp add: save_real_items_def read_json_def toy_world_one_level_def
        toy_store_one_level_def bad1)
  have 2: "unlock_real toy_lib toy_world_one_level ''wrong'' None =
     Inl (ValueError ''unable to unlock vault'')"
    by (simp add: unlock_real_def read_json_def toy_world_one_level_def toy_store_one_level_def bad1)
  have 3: "save_decoy_items toy_lib ''wrong'' (JList []) toy_world_decoy =
     (Inl (LibraryError InvalidTag), toy_world_decoy)"
    by (simp add: save_decoy_items_def read_json_def toy_world_decoy_def bad2)
  have 4: "unlock_decoy toy_lib toy_world_decoy ''wrong'' =
     Inl (ValueError ''unable to unlock decoy'')"
    by (simp add: unlock_decoy_def read_json_def toy_world_decoy_def bad2)
  have 5: "unlock_real toy_lib toy_world_foreign_blob ''a1'' None = Inl (LibraryError InvalidTag)"
    by (simp add: unlock_real_def read_json_def toy_world_foreign_blob_def toy_unwrap_own
        toy_open_foreign)
  from 1 2 3 4 5 show ?thesis by blast
qed

text \<open>
  C3, as amended. Opening a blob never reads the blob's stored \<open>aad\<close> field: what
  \<open>decrypt_vault_blob\<close> returns is determined by the CEK and the blob's \<open>file_nonce\<close> and
  \<open>file_ct\<close> fields alone; the ciphertext is always authenticated by AES-GCM against the
  fixed tag \<open>AAD_HEADER\<close>; and a blob that \<open>create_vault_blob\<close> sealed still opens to its
  payload after its \<open>aad\<close> field has been replaced by any other value. The claim as
  stated (a blob whose stored field differs from the tag is rejected before decryption)
  fails: the counterexample is a sealed blob whose \<open>aad\<close> field holds \<open>foreign\<close>.
\<close>

theorem decrypt_vault_blob_never_reads_aad:
  "(py_getitem b1 ''file_nonce'' = py_getitem b2 ''file_nonce'' \<and>
    py_getitem b1 ''file_ct'' = py_getitem b2 ''file_ct'' \<longrightarrow>
      decrypt_vault_blob lib cek b1 = decrypt_vault_blob lib cek b2) \<and>
   (py_getitem b1 ''file_nonce'' = Inr n \<and> py_getitem b1 ''file_ct'' = Inr c \<and>
    b64decode lib n = Inr nonce \<and> b64decode lib c = Inr ct \<longrightarrow>
      decrypt_vault_blob lib cek b1 = aesgcm_decrypt lib cek nonce ct AAD_HEADER) \<and>
   (b64_roundtrip lib \<and> aead_correct lib \<and>
    create_vault_blob lib cek body w = (Inr blob, w') \<and> py_setitem blob ''aad'' v = Inr blob' \<longrightarrow>
      decrypt_vault_blob lib cek blob' = Inr body)"
proof -
  have 1: "py_getitem b1 ''file_nonce'' = py_getitem b2 ''file_nonce'' \<and>
    py_getitem b1 ''file_ct'' = py_getitem b2 ''file_ct'' \<longrightarrow>
      decrypt_vault_blob lib cek b1 = decrypt_vault_blob lib cek b2"
    by (simp add: decrypt_vault_blob_def)
  have 2: "py_getitem b1 ''file_nonce'' = Inr n \<and> py_getitem b1 ''file_ct'' = Inr c \<and>
    b64decode lib n = Inr nonce \<and> b64decode lib c = Inr ct \<longrightarrow>
      decrypt_vault_blob lib cek b1 = aesgcm_decrypt lib cek nonce ct AAD_HEADER"
    by (simp add: decrypt_vault_blob_def decrypt_payload_with_cek_def)
  have 3: "decrypt_vault_blob lib cek blob' = Inr body"
    if h: "b64_roundtrip lib" "aead_correct lib"
      "create_vault_blob lib cek body w = (Inr blob, w')" "py_setitem blob ''aad'' v = Inr blob'"
  proof -
    have "decrypt_vault_blob lib cek blob' = decrypt_vault_blob lib cek blob"
      using py_getitem_setitem_other [OF h(4)] by (simp add: decrypt_vault_blob_def)
    with create_vault_blob_roundtrip [OF h(1,2,3)] show ?thesis by simp
  qed
  from 1 2 3 show ?thesis by blast
qed

theorem decrypt_vault_blob_never_reads_aad_witness:
  "decrypt_vault_blob toy_lib (replicate 32 1) (toy_sealed (replicate 32 1) [1, 2, 3] ''foreign'') =
   decrypt_vault_blob toy_lib (replicate 32 1)
     (toy_sealed (replicate 32 1) [1, 2, 3] (toy_b64encode AAD_HEADER)) \<and>
   decrypt_vault_blob toy_lib (replicate 32 1) (toy_sealed (replicate 32 1) [1, 2, 3] ''foreign'') =
   aesgcm_decrypt toy_lib (replicate 32 1) (replicate 12 0)
     (replicate 32 1 @ replicate 12 0 @ AAD_HEADER @ [1, 2, 3]) AAD_HEADER \<and>
   (\<exists>blob w' blob'.
      create_vault_blob toy_lib (replicate 32 1) [1, 2, 3] toy_world = (Inr blob, w') \<and>
      py_setitem blob ''aad'' (JStr ''foreign'') = Inr blob' \<and>
      decrypt_vault_blob toy_lib (replicate 32 1) blob' = Inr [1, 2, 3])"
proof -
  let ?K = "replicate 32 (1::byte)"
  let ?b1 = "toy_sealed ?K [1, 2, 3] ''foreign''"
  let ?b2 = "toy_sealed ?K [1, 2, 3] (toy_b64encode AAD_HEADER)"
  let ?ct = "?K @ replicate 12 0 @ AAD_HEADER @ [1, 2, 3]"
  have a: "py_getitem ?b1 ''file_nonce'' = py_getitem ?b2 ''file_nonce'' \<and>
           py_getitem ?b1 ''file_ct'' = py_getitem ?b2 ''file_ct''"
    by (simp add: toy_sealed_def)
  have b: "py_getitem ?b1 ''file_nonce'' = Inr (JStr (toy_b64encode (replicate 12 0))) \<and>
           py_getitem ?b1 ''file_ct'' = Inr (JStr (toy_b64encode ?ct)) \<and>
           b64decode toy_lib (JStr (toy_b64encode (replicate 12 0))) = Inr (replicate 12 0) \<and>
           b64decode toy_lib (JStr (toy_b64encode ?ct)) = Inr ?ct"
    by (simp add: toy_sealed_def toy_lib_def toy_decode_encode)
  obtain blob where c: "create_vault_blob toy_lib ?K [1, 2, 3] toy_world =
      (Inr blob, toy_world\<lparr>drawn := drawn toy_world + NONCE_SIZE\<rparr>)"
    using create_vault_blob_ok [OF toy_library_ok, of ?K "[1, 2, 3]" toy_world] by auto
  from create_vault_blob_InrD [OF c] obtain blob' where
    s: "py_setitem blob ''aad'' (JStr ''foreign'') = Inr blob'"
    by auto
  note t = decrypt_vault_blob_never_reads_aad [of ?b1 ?b2 toy_lib ?K
      "JStr (toy_b64encode (replicate 12 0))" "JStr (toy_b64encode ?ct)" "replicate 12 0" ?ct
      "[1, 2, 3]" toy_world blob "toy_world\<lparr>drawn := drawn toy_world + NONCE_SIZE\<rparr>"
      "JStr ''foreign''" blob']
  from t a b c s toy_b64_roundtrip toy_aead_correct show ?thesis
    by blast
qed

theorem foreign_aad_blob_opens_counterexample:
  "py_getitem (toy_sealed (replicate 32 1) [1, 2, 3] ''foreign'') ''aad'' = Inr (JStr ''foreign'') \<and>
   JStr ''foreign'' \<noteq> JStr (b64encode toy_lib AAD_HEADER) \<and>
   b64decode toy_lib (JStr ''foreign'') \<noteq> Inr AAD_HEADER \<and>
   decrypt_vault_blob toy_lib (replicate 32 1) (toy_sealed (replicate 32 1) [1, 2, 3] ''foreign'') =
     Inr [1, 2, 3]"
proof -
  have 1: "py_getitem (toy_sealed (replicate 32 1) [1, 2, 3] ''foreign'') ''aad'' = Inr (JStr ''foreign'')"
    by (simp add: toy_sealed_def)
  have l: "length (b64encode toy_lib AAD_HEADER) = 9" "length AAD_HEADER = 9"
    by (simp_all add: b64encode_def toy_lib_def toy_b64encode_def AAD_HEADER_def)
  have 2: "JStr ''foreign'' \<noteq> JStr (b64encode toy_lib AAD_HEADER)"
  proof
    assume "JStr ''foreign'' = JStr (b64encode toy_lib AAD_HEADER)"
    then have "b64encode toy_lib AAD_HEADER = ''foreign''" by simp
    then have "length (b64encode toy_lib AAD_HEADER) = length ''foreign''"
      by (rule arg_cong [where f = length])
    with l(1) show False by simp
  qed
  have 3: "b64decode toy_lib (JStr ''foreign'') \<noteq> Inr AAD_HEADER"
  proof
    assume "b64decode toy_lib (JStr ''foreign'') = Inr AAD_HEADER"
    then have "AAD_HEADER = map of_char ''foreign''"
      by (simp add: toy_lib_def toy_b64decode_def)
    then have "length AAD_HEADER = length (map of_char ''foreign'' :: bytes)"
      by (rule arg_cong [where f = length])
    with l(2) show False by simp
  qed
  have 4: "decrypt_vault_blob toy_lib (replicate 32 1) (toy_sealed (replicate 32 1) [1, 2, 3] ''foreign'') =
     Inr [1, 2, 3]"
    by (rule toy_open_sealed) simp
  from 1 2 3 4 show ?thesis by blast
qed

text \<open>
  C4. Every encryption call that returns has drawn its nonce from \<open>os.urandom\<close>: the
  nonce it returns is the next 12 bytes of the random source, the ciphertext it returns
  is the library's AES-GCM encryption under exactly this nonce, and the call moves the
  source on by exactly these 12 bytes, so no later call reads them again. Wrapping a
  CEK stores the nonce it encrypted under, drawn after the salt. Two calls in a row
  that seal the same plaintext under the same CEK encrypt under two successive
  12-byte draws and store the encodings of these draws, next to the ciphertexts made
  with them, in the blobs; with the randomness fresh (the two draws differ) the two
  nonces differ.
\<close>

theorem every_encryption_draws_its_own_nonce:
  "(aesgcm_encrypt lib key pt aad w = (Inr (nonce, ct), w') \<longrightarrow>
      nonce = map (entropy w) [drawn w ..< drawn w + 12] \<and> length nonce = 12 \<and>
      w' = w\<lparr>drawn := drawn w + 12\<rparr> \<and>
      (\<exists>aes. AESGCM lib key = Inr aes \<and> aes_encrypt lib aes nonce pt aad = Inr ct)) \<and>
   (wrap_cek_with_password lib k pw w = (Inr wrapped, w3) \<longrightarrow>
      (\<exists>aes ct.
         AESGCM lib (derive_key lib pw (map (entropy w) [drawn w ..< drawn w + 16])
                      KDF_ITERATIONS 32) = Inr aes \<and>
         aes_encrypt lib aes (map (entropy w) [drawn w + 16 ..< drawn w + 28]) k AAD_HEADER = Inr ct \<and>
         wrapped =
           JObj [(''salt'', JStr (b64encode lib (map (entropy w) [drawn w ..< drawn w + 16]))),
                 (''nonce'', JStr (b64encode lib (map (entropy w) [drawn w + 16 ..< drawn w + 28]))),
                 (''ct'', JStr (b64encode lib ct))]) \<and>
      w3 = w\<lparr>drawn := drawn w + 28\<rparr>) \<and>
   (create_vault_blob lib cek body w = (Inr blob1, w1) \<and>
    create_vault_blob lib cek body w1 = (Inr blob2, w2) \<longrightarrow>
      (\<exists>aes ct1 ct2.
         AESGCM lib cek = Inr aes \<and>
         aes_encrypt lib aes (map (entropy w) [drawn w ..< drawn w + 12]) body AAD_HEADER = Inr ct1 \<and>
         aes_encrypt lib aes (map (entropy w) [drawn w + 12 ..< drawn w + 24]) body AAD_HEADER = Inr ct2 \<and>
         py_getitem blob1 ''file_nonce'' =
           Inr (JStr (b64encode lib (map (entropy w) [drawn w ..< drawn w + 12]))) \<and>
         py_getitem blob1 ''file_ct'' = Inr (JStr (b64encode lib ct1)) \<and>
         py_getitem blob2 ''file_nonce'' =
           Inr (JStr (b64encode lib (map (entropy w) [drawn w + 12 ..< drawn w + 24]))) \<and>
         py_getitem blob2 ''file_ct'' = Inr (JStr (b64encode lib ct2))) \<and>
      w2 = w\<lparr>drawn := drawn w + 24\<rparr> \<and>
      (b64_roundtrip lib \<and>
       map (entropy w) [drawn w ..< drawn w + 12] \<noteq> map (entropy w) [drawn w + 12 ..< drawn w + 24] \<longrightarrow>
         py_getitem blob1 ''file_nonce'' \<noteq> py_getitem blob2 ''file_nonce''))"
proof -
  let ?n1 = "map (entropy w) [drawn w ..< drawn w + 12]"
  let ?n2 = "map (entropy w) [drawn w + 12 ..< drawn w + 24]"
  have 1: "nonce = ?n1 \<and> length nonce = 12 \<and> w' = w\<lparr>drawn := drawn w + 12\<rparr> \<and>
      (\<exists>aes. AESGCM lib key = Inr aes \<and> aes_encrypt lib aes nonce pt aad = Inr ct)"
    if "aesgcm_encrypt lib key pt aad w = (Inr (nonce, ct), w')"
    using aesgcm_encrypt_InrD [OF that] by (auto simp: urandom_peek_def NONCE_SIZE_def)
  have 2: "(\<exists>aes ct1 ct2.
         AESGCM lib cek = Inr aes \<and>
         aes_encrypt lib aes ?n1 body AAD_HEADER = Inr ct1 \<and>
         aes_encrypt lib aes ?n2 body AAD_HEADER = Inr ct2 \<and>
         py_getitem blob1 ''file_nonce'' = Inr (JStr (b64encode lib ?n1)) \<and>
         py_getitem blob1 ''file_ct'' = Inr (JStr (b64encode lib ct1)) \<and>
         py_getitem blob2 ''file_nonce'' = Inr (JStr (b64encode lib ?n2)) \<and>
         py_getitem blob2 ''file_ct'' = Inr (JStr (b64encode lib ct2))) \<and>
      w2 = w\<lparr>drawn := drawn w + 24\<rparr> \<and>
      (b64_roundtrip lib \<and> ?n1 \<noteq> ?n2 \<longrightarrow>
         py_getitem blob1 ''file_nonce'' \<noteq> py_getitem blob2 ''file_nonce'')"
    if a: "create_vault_blob lib cek body w = (Inr blob1, w1)"
      and b: "create_vault_blob lib cek body w1 = (Inr blob2, w2)"
  proof -
    have p1: "urandom_peek w NONCE_SIZE = ?n1"
      by (simp add: urandom_peek_def NONCE_SIZE_def)
    from create_vault_blob_InrD [OF a] obtain aes ct1 where
      k: "AESGCM lib cek = Inr aes" and
      e1': "aes_encrypt lib aes (urandom_peek w NONCE_SIZE) body AAD_HEADER = Inr ct1" and
      b1': "blob1 = JObj [(''version'', JInt 1), (''aad'', JStr (b64encode lib AAD_HEADER)),
                         (''file_ct'', JStr (b64encode lib ct1)),
                         (''file_nonce'', JStr (b64encode lib (urandom_peek w NONCE_SIZE)))]" and
      w1': "w1 = w\<lparr>drawn := drawn w + NONCE_SIZE\<rparr>"
      by blast
    have e1: "aes_encrypt lib aes ?n1 body AAD_HEADER = Inr ct1"
      using e1' by (simp only: p1)
    have b1: "blob1 = JObj [(''version'', JInt 1), (''aad'', JStr (b64encode lib AAD_HEADER)),
                         (''file_ct'', JStr (b64encode lib ct1)),
                         (''file_nonce'', JStr (b64encode lib ?n1))]"
      using b1' by (simp only: p1)
    have w1: "w1 = w\<lparr>drawn := drawn w + 12\<rparr>"
      using w1' by (simp add: NONCE_SIZE_def)
    have p2: "urandom_peek w1 NONCE_SIZE = ?n2"
      by (simp add: urandom_peek_def NONCE_SIZE_def w1 add.commute)
    from create_vault_blob_InrD [OF b] obtain aes2 ct2 where
      k2: "AESGCM lib cek = Inr aes2" and
      e2': "aes_encrypt lib aes2 (urandom_peek w1 NONCE_SIZE) body AAD_HEADER = Inr ct2" and
      b2': "blob2 = JObj [(''version'', JInt 1), (''aad'', JStr (b64encode lib AAD_HEADER)),
                         (''file_ct'', JStr (b64encode lib ct2)),
                         (''file_nonce'', JStr (b64encode lib (urandom_peek w1 NONCE_SIZE)))]" and
      w2': "w2 = w1\<lparr>drawn := drawn w1 + NONCE_SIZE\<rparr>"
      by blast
    from k k2 have "aes2 = aes" by simp
    with e2' have e2: "aes_encrypt lib aes ?n2 body AAD_HEADER = Inr ct2"
      by (simp only: p2)
    have b2: "blob2 = JObj [(''version'', JInt 1), (''aad'', JStr (b64encode lib AAD_HEADER)),
                         (''file_ct'', JStr (b64encode lib ct2)),
                         (''file_nonce'', JStr (b64encode lib ?n2))]"
      using b2' by (simp only: p2)
    have w2: "w2 = w1\<lparr>drawn := drawn w1 + 12\<rparr>"
      using w2' by (simp add: NONCE_SIZE_def)
    have n1: "py_getitem blob1 ''file_nonce'' = Inr (JStr (b64encode lib ?n1))"
      and c1: "py_getitem blob1 ''file_ct'' = Inr (JStr (b64encode lib ct1))"
      by (simp_all add: b1)
    have n2: "py_getitem blob2 ''file_nonce'' = Inr (JStr (b64encode lib ?n2))"
      and c2: "py_getitem blob2 ''file_ct'' = Inr (JStr (b64encode lib ct2))"
      by (simp_all add: b2)
    have w: "w2 = w\<lparr>drawn := drawn w + 24\<rparr>"
      by (simp add: w2 w1)
    have d: "py_getitem blob1 ''file_nonce'' \<noteq> py_getitem blob2 ''file_nonce''"
      if r: "b64_roundtrip lib" and d: "?n1 \<noteq> ?n2"
    proof
      assume "py_getitem blob1 ''file_nonce'' = py_getitem blob2 ''file_nonce''"
      with n1 n2 have "b64encode lib ?n1 = b64encode lib ?n2" by simp
      then have "urlsafe_b64decode lib (b64encode lib ?n1) = urlsafe_b64decode lib (b64encode lib ?n2)"
        by simp
      with r d show False by (simp add: b64decode_b64encode)
    qed
    from k e1 e2 n1 c1 n2 c2 w d show ?thesis by blast
  qed
  have 3: "(\<exists>aes ct.
         AESGCM lib (derive_key lib pw (map (entropy w) [drawn w ..< drawn w + 16])
                      KDF_ITERATIONS 32) = Inr aes \<and>
         aes_encrypt lib aes (map (entropy w) [drawn w + 16 ..< drawn w + 28]) k AAD_HEADER = Inr ct \<and>
         wrapped =
           JObj [(''salt'', JStr (b64encode lib (map (entropy w) [drawn w ..< drawn w + 16]))),
                 (''nonce'', JStr (b64encode lib (map (entropy w) [drawn w + 16 ..< drawn w + 28]))),
                 (''ct'', JStr (b64encode lib ct))]) \<and>
      w3 = w\<lparr>drawn := drawn w + 28\<rparr>"
    if a: "wrap_cek_with_password lib k pw w = (Inr wrapped, w3)"
  proof -
    have s: "urandom_peek w SALT_SIZE = map (entropy w) [drawn w ..< drawn w + 16]"
      by (simp add: urandom_peek_def SALT_SIZE_def)
    have n: "urandom_peek (w\<lparr>drawn := drawn w + SALT_SIZE\<rparr>) NONCE_SIZE =
               map (entropy w) [drawn w + 16 ..< drawn w + 28]"
      by (simp add: urandom_peek_def SALT_SIZE_def NONCE_SIZE_def add.commute)
    have d: "drawn w + SALT_SIZE + NONCE_SIZE = drawn w + 28"
      by (simp add: SALT_SIZE_def NONCE_SIZE_def)
    from wrap_cek_InrD [OF a] have
      "\<exists>aes ct.
         AESGCM lib (derive_key lib pw (map (entropy w) [drawn w ..< drawn w + 16])
                      KDF_ITERATIONS 32) = Inr aes \<and>
         aes_encrypt lib aes (map (entropy w) [drawn w + 16 ..< drawn w + 28]) k AAD_HEADER = Inr ct \<and>
         wrapped =
           JObj [(''salt'', JStr (b64encode lib (map (entropy w) [drawn w ..< drawn w + 16]))),
                 (''nonce'', JStr (b64encode lib (map (entropy w) [drawn w + 16 ..< drawn w + 28]))),
                 (''ct'', JStr (b64encode lib ct))] \<and>
         w3 = w\<lparr>drawn := drawn w + 28\<rparr>"
      by (simp only: s n d)
    then show ?thesis by blast
  qed
  from 1 2 3 show ?thesis by blast
qed

theorem every_encryption_draws_its_own_nonce_witness:
  "(\<exists>nonce ct w'.
      aesgcm_encrypt toy_lib (replicate 32 1) [1, 2, 3] AAD_HEADER toy_world = (Inr (nonce, ct), w') \<and>
      nonce = map (entropy toy_world) [drawn toy_world ..< drawn toy_world + 12] \<and>
      length nonce = 12 \<and> w' = toy_world\<lparr>drawn := drawn toy_world + 12\<rparr> \<and>
      (\<exists>aes. AESGCM toy_lib (replicate 32 1) = Inr aes \<and>
         aes_encrypt toy_lib aes nonce [1, 2, 3] AAD_HEADER = Inr ct)) \<and>
   (\<exists>wrapped w3.
      wrap_cek_with_password toy_lib (replicate 32 1) ''a1'' toy_world = (Inr wrapped, w3) \<and>
      py_getitem wrapped ''nonce'' =
        Inr (JStr (b64encode toy_lib
          (map (entropy toy_world) [drawn toy_world + 16 ..< drawn toy_world + 28]))) \<and>
      w3 = toy_world\<lparr>drawn := drawn toy_world + 28\<rparr>) \<and>
   b64_roundtrip toy_lib \<and>
   map (entropy toy_world) [drawn toy_world ..< drawn toy_world + 12] \<noteq>
     map (entropy toy_world) [drawn toy_world + 12 ..< drawn toy_world + 24] \<and>
   (\<exists>blob1 w1 blob2 w2.
      create_vault_blob toy_lib (replicate 32 1) [1, 2, 3] toy_world = (Inr blob1, w1) \<and>
      create_vault_blob toy_lib (replicate 32 1) [1, 2, 3] w1 = (Inr blob2, w2) \<and>
      w2 = toy_world\<lparr>drawn := drawn toy_world + 24\<rparr> \<and>
      py_getitem blob1 ''file_nonce'' \<noteq> py_getitem blob2 ''file_nonce'')"
proof -
  let ?K = "replicate 32 (1::byte)"
  have len: "length ?K = 32" by simp
  obtain ct where
    e: "aesgcm_encrypt toy_lib ?K [1, 2, 3] AAD_HEADER toy_world =
          (Inr (urandom_peek toy_world NONCE_SIZE, ct), toy_world\<lparr>drawn := drawn toy_world + NONCE_SIZE\<rparr>)"
    using aesgcm_encrypt_ok [OF toy_aead_accepts toy_aead_correct len, of "[1, 2, 3]" AAD_HEADER toy_world]
    by blast
  obtain blob1 where
    c1: "create_vault_blob toy_lib ?K [1, 2, 3] toy_world =
          (Inr blob1, toy_world\<lparr>drawn := drawn toy_world + NONCE_SIZE\<rparr>)"
    using create_vault_blob_ok [OF toy_library_ok len, of "[1, 2, 3]" toy_world] by blast
  obtain blob2 w2 where
    c2: "create_vault_blob toy_lib ?K [1, 2, 3] (toy_world\<lparr>drawn := drawn toy_world + NONCE_SIZE\<rparr>) =
          (Inr blob2, w2)"
    using create_vault_blob_ok [OF toy_library_ok len, of "[1, 2, 3]"
        "toy_world\<lparr>drawn := drawn toy_world + NONCE_SIZE\<rparr>"] by blast
  obtain wrapped w3 where
    c3: "wrap_cek_with_password toy_lib ?K ''a1'' toy_world = (Inr wrapped, w3)"
    using wrap_cek_ok [OF toy_library_ok, of ?K "''a1''" toy_world] by blast
  note t = every_encryption_draws_its_own_nonce [of toy_lib ?K "[1, 2, 3]" AAD_HEADER toy_world
      "urandom_peek toy_world NONCE_SIZE" ct "toy_world\<lparr>drawn := drawn toy_world + NONCE_SIZE\<rparr>"
      ?K "''a1''" wrapped w3
      ?K "[1, 2, 3]" blob1 "toy_world\<lparr>drawn := drawn toy_world + NONCE_SIZE\<rparr>" blob2 w2]
  from t [THEN conjunct1] e have a:
    "\<exists>nonce ct w'.
      aesgcm_encrypt toy_lib ?K [1, 2, 3] AAD_HEADER toy_world = (Inr (nonce, ct), w') \<and>
      nonce = map (entropy toy_world) [drawn toy_world ..< drawn toy_world + 12] \<and>
      length nonce = 12 \<and> w' = toy_world\<lparr>drawn := drawn toy_world + 12\<rparr> \<and>
      (\<exists>aes. AESGCM toy_lib ?K = Inr aes \<and>
         aes_encrypt toy_lib aes nonce [1, 2, 3] AAD_HEADER = Inr ct)"
    by blast
  from t [THEN conjunct2, THEN conjunct1] c3 have w:
    "\<exists>wrapped w3.
      wrap_cek_with_password toy_lib ?K ''a1'' toy_world = (Inr wrapped, w3) \<and>
      py_getitem wrapped ''nonce'' =
        Inr (JStr (b64encode toy_lib
          (map (entropy toy_world) [drawn toy_world + 16 ..< drawn toy_world + 28]))) \<and>
      w3 = toy_world\<lparr>drawn := drawn toy_world + 28\<rparr>"
    by auto
  from t [THEN conjunct2, THEN conjunct2] c1 c2 toy_b64_roundtrip toy_entropy_blocks_differ have b:
    "\<exists>blob1 w1 blob2 w2.
      create_vault_blob toy_lib ?K [1, 2, 3] toy_world = (Inr blob1, w1) \<and>
      create_vault_blob toy_lib ?K [1, 2, 3] w1 = (Inr blob2, w2) \<and>
      w2 = toy_world\<lparr>drawn := drawn toy_world + 24\<rparr> \<and>
      py_getitem blob1 ''file_nonce'' \<noteq> py_getitem blob2 ''file_nonce''"
    by blast
  from a w b toy_b64_roundtrip toy_entropy_blocks_differ show ?thesis by blast
qed

text \<open>
  C5. On a real vault record whose policy requires L2: when the L1 password does not
  unwrap \<open>wrapped_l1\<close>, \<open>unlock_real\<close> fails with \<open>ValueError("unable to unlock vault")\<close>
  for every L2 argument, also for none; when the L1 password unwraps \<open>wrapped_l1\<close> and
  the L2 argument is \<open>None\<close> or empty, it fails with the distinct
  \<open>ValueError("two-level authentication required")\<close>. So the L1 unwrap comes before the
  check that an L2 password is there.
\<close>

theorem unlock_real_l1_checked_before_l2:
  assumes "real_file w = Some store"
    and "py_get store ''policy'' (JObj []) = Inr policy"
    and "py_get policy ''requires_l2'' (JBool False) = Inr r"
    and "py_truthy r"
    and "py_getitem store ''wrapped_l1'' = Inr wl1"
  shows "(\<forall>e. unwrap_cek_with_password lib wl1 l1 = Inl e \<longrightarrow>
            (\<forall>l2. unlock_real lib w l1 l2 = Inl (ValueError ''unable to unlock vault''))) \<and>
         (\<forall>cek. unwrap_cek_with_password lib wl1 l1 = Inr cek \<longrightarrow>
            (\<forall>l2. \<not> str_truthy l2 \<longrightarrow>
               unlock_real lib w l1 l2 = Inl (ValueError ''two-level authentication required'')))"
proof -
  have 1: "unlock_real lib w l1 l2 = Inl (ValueError ''unable to unlock vault'')"
    if "unwrap_cek_with_password lib wl1 l1 = Inl e" for e l2
    using assms that by (simp add: unlock_real_def read_json_def)
  have 2: "unlock_real lib w l1 l2 = Inl (ValueError ''two-level authentication required'')"
    if "unwrap_cek_with_password lib wl1 l1 = Inr cek" "\<not> str_truthy l2" for cek l2
    using assms that by (cases l2) (simp_all add: unlock_real_def read_json_def)
  from 1 2 show ?thesis by blast
qed

theorem unlock_real_l1_checked_before_l2_witness:
  "real_file toy_world_mismatch = Some toy_store_mismatch \<and>
   py_get toy_store_mismatch ''policy'' (JObj []) = Inr (JObj [(''requires_l2'', JBool True)]) \<and>
   py_get (JObj [(''requires_l2'', JBool True)]) ''requires_l2'' (JBool False) = Inr (JBool True) \<and>
   py_truthy (JBool True) \<and>
   py_getitem toy_store_mismatch ''wrapped_l1'' = Inr (toy_wrapped (replicate 32 1) ''a1'') \<and>
   unwrap_cek_with_password toy_lib (toy_wrapped (replicate 32 1) ''a1'') ''wrong'' =
     Inl (LibraryError InvalidTag) \<and>
   unlock_real toy_lib toy_world_mismatch ''wrong'' None = Inl (ValueError ''unable to unlock vault'') \<and>
   unlock_real toy_lib toy_world_mismatch ''wrong'' (Some ''a2'') =
     Inl (ValueError ''unable to unlock vault'') \<and>
   unwrap_cek_with_password toy_lib (toy_wrapped (replicate 32 1) ''a1'') ''a1'' = Inr (replicate 32 1) \<and>
   \<not> str_truthy None \<and> \<not> str_truthy (Some '''') \<and>
   unlock_real toy_lib toy_world_mismatch ''a1'' None =
     Inl (ValueError ''two-level authentication required'') \<and>
   unlock_real toy_lib toy_world_mismatch ''a1'' (Some '''') =
     Inl (ValueError ''two-level authentication required'')"
proof -
  have h1: "real_file toy_world_mismatch = Some toy_store_mismatch"
    by (simp add: toy_world_mismatch_def)
  have h2: "py_get toy_store_mismatch ''policy'' (JObj []) = Inr (JObj [(''requires_l2'', JBool True)])"
    by (simp add: toy_store_mismatch_def)
  have h3: "py_get (JObj [(''requires_l2'', JBool True)]) ''requires_l2'' (JBool False) = Inr (JBool True)"
    by simp
  have h4: "py_truthy (JBool True)" by simp
  have h5: "py_getitem toy_store_mismatch ''wrapped_l1'' = Inr (toy_wrapped (replicate 32 1) ''a1'')"
    by (simp add: toy_store_mismatch_def)
  have bad: "unwrap_cek_with_password toy_lib (toy_wrapped (replicate 32 1) ''a1'') ''wrong'' =
     Inl (LibraryError InvalidTag)"
    by (rule toy_unwrap_other) (simp add: toy_kdf_differs)
  have good: "unwrap_cek_with_password toy_lib (toy_wrapped (replicate 32 1) ''a1'') ''a1'' = Inr (replicate 32 1)"
    by (rule toy_unwrap_own)
  have f: "\<not> str_truthy None \<and> \<not> str_truthy (Some '''')" by simp
  from unlock_real_l1_checked_before_l2 [OF h1 h2 h3 h4 h5, of toy_lib "''wrong''"]
    unlock_real_l1_checked_before_l2 [OF h1 h2 h3 h4 h5, of toy_lib "''a1''"]
  show ?thesis using h1 h2 h3 h4 h5 bad good f by blast
qed

text \<open>
  C6 (round trip). With libraries that keep their contracts, for every password \<open>P\<close>,
  every CEK and every payload \<open>B\<close>: wrapping the CEK under \<open>P\<close> returns a record, and
  unwrapping that record with \<open>P\<close> returns the CEK exactly; every blob that sealing \<open>B\<close>
  under the CEK returns opens, under the same CEK, to \<open>B\<close> exactly; and sealing under a
  32-byte CEK, which is what \<open>create_cek\<close> generates, does return a blob.
\<close>

theorem wrap_unwrap_seal_open_roundtrip:
  assumes "library_ok lib"
  shows "(\<exists>wrapped w'. wrap_cek_with_password lib cek P w = (Inr wrapped, w') \<and>
            unwrap_cek_with_password lib wrapped P = Inr cek) \<and>
         (\<forall>blob w'. create_vault_blob lib cek B w = (Inr blob, w') \<longrightarrow>
            decrypt_vault_blob lib cek blob = Inr B) \<and>
         (length cek = 32 \<longrightarrow> (\<exists>blob w'. create_vault_blob lib cek B w = (Inr blob, w')))"
proof -
  from assms have b: "b64_roundtrip lib" and c: "aead_correct lib"
    by (simp_all add: library_ok_def)
  have 1: "\<exists>wrapped w'. wrap_cek_with_password lib cek P w = (Inr wrapped, w') \<and>
            unwrap_cek_with_password lib wrapped P = Inr cek"
    using wrap_cek_ok [OF assms, of cek P w] by blast
  have 2: "\<forall>blob w'. create_vault_blob lib cek B w = (Inr blob, w') \<longrightarrow>
            decrypt_vault_blob lib cek blob = Inr B"
    using create_vault_blob_roundtrip [OF b c] by blast
  have 3: "length cek = 32 \<longrightarrow> (\<exists>blob w'. create_vault_blob lib cek B w = (Inr blob, w'))"
    using create_vault_blob_ok [OF assms, of cek B w] by blast
  from 1 2 3 show ?thesis by blast
qed

theorem wrap_unwrap_seal_open_roundtrip_witness:
  "library_ok toy_lib \<and> length (replicate 32 (7::byte)) = 32 \<and>
   (\<exists>wrapped w'. wrap_cek_with_password toy_lib (replicate 32 7) ''alpha'' toy_world = (Inr wrapped, w') \<and>
      unwrap_cek_with_password toy_lib wrapped ''alpha'' = Inr (replicate 32 7)) \<and>
   (\<exists>blob w'. create_vault_blob toy_lib (replicate 32 7) [1, 2, 3] toy_world = (Inr blob, w') \<and>
      decrypt_vault_blob toy_lib (replicate 32 7) blob = Inr [1, 2, 3])"
proof -
  have len: "length (replicate 32 (7::byte)) = 32" by simp
  from wrap_unwrap_seal_open_roundtrip [OF toy_library_ok, of "replicate 32 7" "''alpha''" toy_world "[1, 2, 3]"]
  show ?thesis using toy_library_ok len by blast
qed

text \<open>
  C7, as amended. After a \<open>save_real_items\<close> call that returned, the real record is the
  record of before with the \<open>blob\<close> key set to the new blob: every other key (\<open>version\<close>,
  \<open>policy\<close>, \<open>wrapped_l1\<close>, \<open>wrapped_l2\<close>) reads as before, and the meta and decoy files
  are untouched. The new blob is what \<open>create_vault_blob\<close> seals of the items under the
  CEK unwrapped from \<open>wrapped_l1\<close>, and its nonce is the encoding of the 12 bytes this
  call drew from \<open>os.urandom\<close>; it is never taken from the old record, and it differs
  from the previous blob's nonce whenever the bytes drawn are not the bytes of the
  previous nonce. The code draws and does not compare: the claim as stated (the new
  nonce differs from the previous one after every successful call) fails when the
  random source returns the previous nonce's bytes again, as the counterexample shows.
\<close>

theorem save_real_items_replaces_blob_only:
  assumes "save_real_items lib l1 l2 items w = (Inr (), w')"
    and "real_file w = Some store"
  shows "\<exists>store' blob' wl1 cek.
           real_file w' = Some store' \<and>
           py_setitem store ''blob'' blob' = Inr store' \<and>
           (\<forall>k. k \<noteq> ''blob'' \<longrightarrow> py_getitem store' k = py_getitem store k) \<and>
           py_getitem store' ''blob'' = Inr blob' \<and>
           py_getitem store ''wrapped_l1'' = Inr wl1 \<and>
           unwrap_cek_with_password lib wl1 l1 = Inr cek \<and>
           create_vault_blob lib cek (dumps_body lib items) w =
             (Inr blob', w\<lparr>drawn := drawn w + 12\<rparr>) \<and>
           py_getitem blob' ''file_nonce'' = Inr (JStr (b64encode lib (urandom_peek w NONCE_SIZE))) \<and>
           length (urandom_peek w NONCE_SIZE) = 12 \<and>
           drawn w' = drawn w + 12 \<and> entropy w' = entropy w \<and>
           meta_file w' = meta_file w \<and> decoy_file w' = decoy_file w \<and>
           (\<forall>old oldn. b64_roundtrip lib \<and> py_getitem store ''blob'' = Inr old \<and>
              py_getitem old ''file_nonce'' = Inr oldn \<and>
              b64decode lib oldn \<noteq> Inr (urandom_peek w NONCE_SIZE) \<longrightarrow>
              py_getitem blob' ''file_nonce'' \<noteq> py_getitem old ''file_nonce'')"
proof -
  from save_real_items_InrD [OF assms(1)] assms(2) obtain wl1 cek blob store' where
    g: "py_getitem store ''wrapped_l1'' = Inr wl1" and
    u: "unwrap_cek_with_password lib wl1 l1 = Inr cek" and
    c: "create_vault_blob lib cek (dumps_body lib items) w =
          (Inr blob, w\<lparr>drawn := drawn w + NONCE_SIZE\<rparr>)" and
    s: "py_setitem store ''blob'' blob = Inr store'" and
    w': "w' = w\<lparr>drawn := drawn w + NONCE_SIZE, real_file := Some store'\<rparr>"
    by auto
  from create_vault_blob_InrD [OF c] have
    n: "py_getitem blob ''file_nonce'' = Inr (JStr (b64encode lib (urandom_peek w NONCE_SIZE)))"
    by auto
  have c': "create_vault_blob lib cek (dumps_body lib items) w = (Inr blob, w\<lparr>drawn := drawn w + 12\<rparr>)"
    using c by (simp add: NONCE_SIZE_def)
  have f: "py_getitem blob ''file_nonce'' \<noteq> py_getitem old ''file_nonce''"
    if "b64_roundtrip lib" "py_getitem old ''file_nonce'' = Inr oldn"
      "b64decode lib oldn \<noteq> Inr (urandom_peek w NONCE_SIZE)" for old oldn
  proof
    assume "py_getitem blob ''file_nonce'' = py_getitem old ''file_nonce''"
    with n that(2) have "oldn = JStr (b64encode lib (urandom_peek w NONCE_SIZE))" by simp
    with that(1,3) show False by (simp add: b64decode_b64encode)
  qed
  have "real_file w' = Some store'" using w' by simp
  moreover have "\<forall>k. k \<noteq> ''blob'' \<longrightarrow> py_getitem store' k = py_getitem store k"
    using py_getitem_setitem_other [OF s] by blast
  moreover have "py_getitem store' ''blob'' = Inr blob"
    by (rule py_getitem_setitem_same [OF s])
  moreover have "length (urandom_peek w NONCE_SIZE) = 12"
    by (simp add: length_urandom_peek NONCE_SIZE_def)
  moreover have "drawn w' = drawn w + 12 \<and> entropy w' = entropy w \<and>
           meta_file w' = meta_file w \<and> decoy_file w' = decoy_file w"
    using w' by (simp add: NONCE_SIZE_def)
  ultimately show ?thesis using s n f g u c' by blast
qed

theorem save_real_items_replaces_blob_only_witness:
  "save_real_items toy_lib ''a1'' None (JList []) toy_world_one_level =
     (Inr (), snd (save_real_items toy_lib ''a1'' None (JList []) toy_world_one_level)) \<and>
   real_file toy_world_one_level = Some toy_store_one_level \<and>
   b64_roundtrip toy_lib \<and>
   py_getitem toy_store_one_level ''blob'' =
     Inr (toy_sealed (replicate 32 1) (toy_utf8_encode ''[]'') (toy_b64encode AAD_HEADER)) \<and>
   py_getitem (toy_sealed (replicate 32 1) (toy_utf8_encode ''[]'') (toy_b64encode AAD_HEADER)) ''file_nonce'' =
     Inr (JStr (toy_b64encode (replicate 12 0))) \<and>
   b64decode toy_lib (JStr (toy_b64encode (replicate 12 0))) \<noteq>
     Inr (urandom_peek toy_world_one_level NONCE_SIZE) \<and>
   (\<exists>store' blob'.
      real_file (snd (save_real_items toy_lib ''a1'' None (JList []) toy_world_one_level)) = Some store' \<and>
      py_getitem store' ''version'' = py_getitem toy_store_one_level ''version'' \<and>
      py_getitem store' ''policy'' = py_getitem toy_store_one_level ''policy'' \<and>
      py_getitem store' ''wrapped_l1'' = py_getitem toy_store_one_level ''wrapped_l1'' \<and>
      py_getitem store' ''wrapped_l2'' = py_getitem toy_store_one_level ''wrapped_l2'' \<and>
      py_getitem store' ''blob'' = Inr blob' \<and>
      create_vault_blob toy_lib (replicate 32 1) (dumps_body toy_lib (JList [])) toy_world_one_level =
        (Inr blob', toy_world_one_level\<lparr>drawn := drawn toy_world_one_level + 12\<rparr>) \<and>
      py_getitem blob' ''file_nonce'' \<noteq> Inr (JStr (toy_b64encode (replicate 12 0))))"
proof -
  let ?w = toy_world_one_level
  let ?old = "toy_sealed (replicate 32 1) (toy_utf8_encode ''[]'') (toy_b64encode AAD_HEADER)"
  have h1: "save_real_items toy_lib ''a1'' None (JList []) ?w =
     (Inr (), snd (save_real_items toy_lib ''a1'' None (JList []) ?w))"
    using toy_save_one_level [of None] by (simp add: prod_eq_iff)
  have h2: "real_file ?w = Some toy_store_one_level"
    by (simp add: toy_world_one_level_def)
  have o1: "py_getitem toy_store_one_level ''blob'' = Inr ?old"
    by (simp add: toy_store_one_level_def)
  have o2: "py_getitem ?old ''file_nonce'' = Inr (JStr (toy_b64encode (replicate 12 0)))"
    by (simp add: toy_sealed_def)
  have o3: "b64decode toy_lib (JStr (toy_b64encode (replicate 12 0))) \<noteq>
     Inr (urandom_peek ?w NONCE_SIZE)"
    using toy_entropy_differs_from_zero by (auto simp: toy_lib_def toy_decode_encode)
  have o4: "py_getitem toy_store_one_level ''wrapped_l1'' = Inr (toy_wrapped (replicate 32 1) ''a1'')"
    by (simp add: toy_store_one_level_def)
  from save_real_items_replaces_blob_only [OF h1 h2] obtain store' blob' wl1 cek where
    a: "real_file (snd (save_real_items toy_lib ''a1'' None (JList []) ?w)) = Some store'" and
    b: "\<forall>k. k \<noteq> ''blob'' \<longrightarrow> py_getitem store' k = py_getitem toy_store_one_level k" and
    c: "py_getitem store' ''blob'' = Inr blob'" and
    g: "py_getitem toy_store_one_level ''wrapped_l1'' = Inr wl1" and
    u: "unwrap_cek_with_password toy_lib wl1 ''a1'' = Inr cek" and
    v: "create_vault_blob toy_lib cek (dumps_body toy_lib (JList [])) ?w =
          (Inr blob', ?w\<lparr>drawn := drawn ?w + 12\<rparr>)" and
    d: "\<forall>old oldn. b64_roundtrip toy_lib \<and> py_getitem toy_store_one_level ''blob'' = Inr old \<and>
              py_getitem old ''file_nonce'' = Inr oldn \<and>
              b64decode toy_lib oldn \<noteq> Inr (urandom_peek ?w NONCE_SIZE) \<longrightarrow>
              py_getitem blob' ''file_nonce'' \<noteq> py_getitem old ''file_nonce''"
    by blast
  from g o4 have "wl1 = toy_wrapped (replicate 32 1) ''a1''" by simp
  with u have "cek = replicate 32 1" by (simp add: toy_unwrap_own)
  with v have v': "create_vault_blob toy_lib (replicate 32 1) (dumps_body toy_lib (JList [])) ?w =
          (Inr blob', ?w\<lparr>drawn := drawn ?w + 12\<rparr>)"
    by simp
  from d toy_b64_roundtrip o1 o2 o3 have
    e: "py_getitem blob' ''file_nonce'' \<noteq> Inr (JStr (toy_b64encode (replicate 12 0)))"
    by metis
  from b have f: "py_getitem store' ''version'' = py_getitem toy_store_one_level ''version''"
    "py_getitem store' ''policy'' = py_getitem toy_store_one_level ''policy''"
    "py_getitem store' ''wrapped_l1'' = py_getitem toy_store_one_level ''wrapped_l1''"
    "py_getitem store' ''wrapped_l2'' = py_getitem toy_store_one_level ''wrapped_l2''"
    by simp_all
  from h1 h2 toy_b64_roundtrip o1 o2 o3 a f c v' e show ?thesis by blast
qed

theorem save_real_items_reuses_nonce_counterexample:
  "real_file toy_world_repeating = Some toy_store_one_level \<and>
   py_getitem toy_store_one_level ''blob'' =
     Inr (toy_sealed (replicate 32 1) (toy_utf8_encode ''[]'') (toy_b64encode AAD_HEADER)) \<and>
   save_real_items toy_lib ''a1'' None toy_welcome toy_world_repeating =
     (Inr (), toy_world_repeating\<lparr>drawn := 12, real_file := Some (JObj
        [(''version'', JInt 1),
         (''policy'', JObj [(''requires_l2'', JBool False)]),
         (''wrapped_l1'', toy_wrapped (replicate 32 1) ''a1''),
         (''wrapped_l2'', JNull),
         (''blob'', toy_sealed (replicate 32 1) (toy_utf8_encode ''[welcome]'')
                      (toy_b64encode AAD_HEADER))])\<rparr>) \<and>
   py_getitem (toy_sealed (replicate 32 1) (toy_utf8_encode ''[welcome]'') (toy_b64encode AAD_HEADER))
       ''file_nonce'' =
     py_getitem (toy_sealed (replicate 32 1) (toy_utf8_encode ''[]'') (toy_b64encode AAD_HEADER))
       ''file_nonce''"
proof -
  have r: "real_file toy_world_repeating = Some toy_store_one_level"
    by (simp add: toy_world_repeating_def)
  have o: "py_getitem toy_store_one_level ''blob'' =
     Inr (toy_sealed (replicate 32 1) (toy_utf8_encode ''[]'') (toy_b64encode AAD_HEADER))"
    by (simp add: toy_store_one_level_def)
  have c: "create_vault_blob toy_lib (replicate 32 1) (dumps_body toy_lib toy_welcome)
             toy_world_repeating =
           (Inr (toy_sealed (replicate 32 1) (toy_utf8_encode ''[welcome]'') (toy_b64encode AAD_HEADER)),
            toy_world_repeating\<lparr>drawn := 12\<rparr>)"
    by (simp add: toy_dumps_welcome toy_seal_repeating)
  have s: "save_real_items toy_lib ''a1'' None toy_welcome toy_world_repeating =
     (Inr (), toy_world_repeating\<lparr>drawn := 12, real_file := Some (JObj
        [(''version'', JInt 1),
         (''policy'', JObj [(''requires_l2'', JBool False)]),
         (''wrapped_l1'', toy_wrapped (replicate 32 1) ''a1''),
         (''wrapped_l2'', JNull),
         (''blob'', toy_sealed (replicate 32 1) (toy_utf8_encode ''[welcome]'')
                      (toy_b64encode AAD_HEADER))])\<rparr>)"
    by (simp add: save_real_items_def read_json_def r c)
       (simp add: toy_store_one_level_def toy_unwrap_own c)
  have n: "py_getitem (toy_sealed (replicate 32 1) (toy_utf8_encode ''[welcome]'') (toy_b64encode AAD_HEADER))
       ''file_nonce'' =
     py_getitem (toy_sealed (replicate 32 1) (toy_utf8_encode ''[]'') (toy_b64encode AAD_HEADER))
       ''file_nonce''"
    by (simp add: toy_sealed_def)
  from r o s n show ?thesis by blast
qed

text \<open>
  C8. The invariant of the real vault record, \<open>wrapped_l2\<close> present (not \<open>null\<close>) if and
  only if \<open>policy.requires_l2\<close> is true: the record that a returning \<open>init_new\<close> has
  written satisfies it, with \<open>requires_l2\<close> true exactly when an L2 password was given;
  and when the record satisfies it before a \<open>save_real_items\<close> call, the record
  satisfies it after the call, whether the call returned or raised, with both sides of
  the invariant unchanged.
\<close>

theorem record_invariant_established_and_preserved:
  "(init_new lib l1 l2 d w = (Inr (), w') \<longrightarrow>
      (\<exists>store. real_file w' = Some store \<and> record_invariant store \<and>
         policy_requires_l2 store = str_truthy l2)) \<and>
   (real_file w = Some store \<and> record_invariant store \<and>
    save_real_items lib p1 p2 items w = (res, w'') \<longrightarrow>
      (\<exists>store'. real_file w'' = Some store' \<and> record_invariant store' \<and>
         wrapped_l2_present store' = wrapped_l2_present store \<and>
         policy_requires_l2 store' = policy_requires_l2 store))"
proof -
  have 1: "\<exists>store. real_file w' = Some store \<and> record_invariant store \<and>
         policy_requires_l2 store = str_truthy l2"
    if i: "init_new lib l1 l2 d w = (Inr (), w')"
  proof -
    from init_new_InrD [OF i] obtain blob wl1 wl2 w3 w4 where
      l: "(case l2 of None \<Rightarrow> wl2 = JNull \<and> w4 = w3
            | Some p2 \<Rightarrow> if p2 \<noteq> [] then wrap_cek_with_password lib (urandom_peek w CEK_SIZE) p2 w3 = (Inr wl2, w4)
                         else wl2 = JNull \<and> w4 = w3)" and
      r: "real_file w' = Some (JObj [(''version'', JInt 1),
                                 (''policy'', JObj [(''requires_l2'', JBool (str_truthy l2))]),
                                 (''wrapped_l1'', wl1),
                                 (''wrapped_l2'', wl2),
                                 (''blob'', blob)])"
      by blast
    have p: "(wl2 \<noteq> JNull) = str_truthy l2"
    proof (cases l2)
      case None
      with l show ?thesis by simp
    next
      case (Some p2)
      show ?thesis
      proof (cases "p2 = []")
        case True
        with Some l show ?thesis by simp
      next
        case False
        with Some l have "wrap_cek_with_password lib (urandom_peek w CEK_SIZE) p2 w3 = (Inr wl2, w4)"
          by simp
        from wrap_cek_InrD [OF this] have "wl2 \<noteq> JNull" by auto
        with Some False show ?thesis by simp
      qed
    qed
    let ?real = "JObj [(''version'', JInt 1),
                                 (''policy'', JObj [(''requires_l2'', JBool (str_truthy l2))]),
                                 (''wrapped_l1'', wl1),
                                 (''wrapped_l2'', wl2),
                                 (''blob'', blob)]"
    have "wrapped_l2_present ?real = (wl2 \<noteq> JNull)"
      by (simp add: wrapped_l2_present_def)
    moreover have "policy_requires_l2 ?real = str_truthy l2"
      by (simp add: policy_requires_l2_def)
    ultimately have "record_invariant ?real \<and> policy_requires_l2 ?real = str_truthy l2"
      using p by (simp add: record_invariant_def)
    with r show ?thesis by blast
  qed
  have 2: "\<exists>store'. real_file w'' = Some store' \<and> record_invariant store' \<and>
         wrapped_l2_present store' = wrapped_l2_present store \<and>
         policy_requires_l2 store' = policy_requires_l2 store"
    if r: "real_file w = Some store" and v: "record_invariant store"
      and s: "save_real_items lib p1 p2 items w = (res, w'')"
  proof (cases res)
    case (Inl e)
    with s save_real_items_InlD [of lib p1 p2 items w e w''] obtain d where "w'' = w\<lparr>drawn := d\<rparr>"
      by blast
    with r v show ?thesis by simp
  next
    case (Inr u)
    with s have "save_real_items lib p1 p2 items w = (Inr (), w'')" by simp
    from save_real_items_InrD [OF this] r obtain blob store' where
      t: "py_setitem store ''blob'' blob = Inr store'" and f: "real_file w'' = Some store'"
      by auto
    from record_invariant_setitem_blob [OF t] v f show ?thesis
      by (simp add: record_invariant_def)
  qed
  from 1 2 show ?thesis by blast
qed

theorem record_invariant_established_and_preserved_witness:
  "init_new toy_lib ''a1'' (Some ''a2'') ''beta'' toy_world =
     (Inr (), snd (init_new toy_lib ''a1'' (Some ''a2'') ''beta'' toy_world)) \<and>
   (\<exists>store. real_file (snd (init_new toy_lib ''a1'' (Some ''a2'') ''beta'' toy_world)) = Some store \<and>
      record_invariant store \<and> policy_requires_l2 store) \<and>
   real_file toy_world_one_level = Some toy_store_one_level \<and>
   record_invariant toy_store_one_level \<and>
   (\<exists>store'. real_file (snd (save_real_items toy_lib ''a1'' None (JList []) toy_world_one_level)) = Some store' \<and>
      record_invariant store' \<and> \<not> policy_requires_l2 store')"
proof -
  let ?i = "init_new toy_lib ''a1'' (Some ''a2'') ''beta'' toy_world"
  let ?s = "save_real_items toy_lib ''a1'' None (JList []) toy_world_one_level"
  have h1: "?i = (Inr (), snd ?i)"
    using init_new_ok [OF toy_library_ok, of "''a1''" "Some ''a2''" "''beta''" toy_world]
    by auto
  have h2: "real_file toy_world_one_level = Some toy_store_one_level"
    by (simp add: toy_world_one_level_def)
  have p: "\<not> policy_requires_l2 toy_store_one_level"
    by (simp add: policy_requires_l2_def toy_store_one_level_def)
  have h3: "record_invariant toy_store_one_level"
    by (simp add: record_invariant_def wrapped_l2_present_def policy_requires_l2_def
        toy_store_one_level_def)
  have h4: "?s = (fst ?s, snd ?s)" by simp
  note t1 = record_invariant_established_and_preserved [of toy_lib "''a1''" "Some ''a2''" "''beta''"
      toy_world "snd ?i"]
  note t2 = record_invariant_established_and_preserved [of toy_lib _ _ _ toy_world_one_level _
      toy_store_one_level "''a1''" None "JList []" "fst ?s" "snd ?s"]
  have a: "\<exists>store. real_file (snd ?i) = Some store \<and> record_invariant store \<and>
      policy_requires_l2 store"
    using t1 [THEN conjunct1] h1 by simp
  have b: "\<exists>store'. real_file (snd ?s) = Some store' \<and> record_invariant store' \<and>
      \<not> policy_requires_l2 store'"
    using t2 [THEN conjunct2] h2 h3 p by auto
  from h1 a h2 h3 b show ?thesis by blast
qed




text \<open>
  C10. On a real vault record whose policy does not require L2 (\<open>requires_l2\<close> false, or
  missing), \<open>unlock_real\<close> and \<open>save_real_items\<close> do not depend on the L2 argument: for
  every L1 password the outcome, and for \<open>save_real_items\<close> the world after the call, is
  the same for any two L2 arguments; and neither raises
  \<open>ValueError("two-level authentication required")\<close>.
\<close>

theorem one_level_record_ignores_l2:
  assumes "real_file w = Some store"
    and "py_get store ''policy'' (JObj []) = Inr policy"
    and "py_get policy ''requires_l2'' (JBool False) = Inr r"
    and "\<not> py_truthy r"
  shows "unlock_real lib w l1 l2 = unlock_real lib w l1 l2' \<and>
         save_real_items lib l1 l2 items w = save_real_items lib l1 l2' items w \<and>
         unlock_real lib w l1 l2 \<noteq> Inl (ValueError ''two-level authentication required'') \<and>
         fst (save_real_items lib l1 l2 items w) \<noteq>
           Inl (ValueError ''two-level authentication required'')"
proof -
  let ?E = "Inl (ValueError ''two-level authentication required'')"
  let ?u = "ebind (py_getitem store ''wrapped_l1'') (\<lambda>wl1. unwrap_cek_with_password lib wl1 l1)"
  have u: "?u \<noteq> Inl (ValueError s)" for s
    by (intro ebind_not_Inl py_getitem_not_ValueError unwrap_not_ValueError)
  have 1: "unlock_real lib w l1 l2 = unlock_real lib w l1 l2'"
    using assms by (cases ?u) (simp_all add: unlock_real_def read_json_def)
  have 2: "save_real_items lib l1 l2 items w = save_real_items lib l1 l2' items w"
    using assms by (simp add: save_real_items_def read_json_def)
  have 3: "unlock_real lib w l1 l2 \<noteq> ?E"
  proof (cases ?u)
    case (Inl e)
    with assms show ?thesis by (simp add: unlock_real_def read_json_def)
  next
    case (Inr cek)
    have "ebind (py_getitem store ''blob'') (\<lambda>blob.
            ebind (decrypt_vault_blob lib cek blob) (\<lambda>body_bytes. loads_body lib body_bytes)) \<noteq> ?E"
      by (intro ebind_not_Inl py_getitem_not_ValueError decrypt_vault_blob_not_ValueError
          loads_body_not_ValueError)
    with assms Inr show ?thesis by (simp add: unlock_real_def read_json_def)
  qed
  have 4: "fst (save_real_items lib l1 l2 items w) \<noteq> ?E"
  proof (cases ?u)
    case (Inl e)
    with u [of "''two-level authentication required''"] have "e \<noteq> ValueError ''two-level authentication required''"
      by auto
    with assms Inl show ?thesis by (simp add: save_real_items_def read_json_def)
  next
    case (Inr cek)
    have c: "fst (create_vault_blob lib cek (dumps_body lib items) w) \<noteq> ?E"
      by (rule create_vault_blob_not_ValueError)
    show ?thesis
    proof (cases "create_vault_blob lib cek (dumps_body lib items) w")
      case (Pair res w1)
      with c assms Inr show ?thesis
        by (cases res; cases store) (auto simp: save_real_items_def read_json_def)
    qed
  qed
  from 1 2 3 4 show ?thesis by blast
qed

theorem one_level_record_ignores_l2_witness:
  "real_file toy_world_one_level = Some toy_store_one_level \<and>
   py_get toy_store_one_level ''policy'' (JObj []) = Inr (JObj [(''requires_l2'', JBool False)]) \<and>
   py_get (JObj [(''requires_l2'', JBool False)]) ''requires_l2'' (JBool False) = Inr (JBool False) \<and>
   \<not> py_truthy (JBool False) \<and>
   unlock_real toy_lib toy_world_one_level ''a1'' None = Inr (JList []) \<and>
   unlock_real toy_lib toy_world_one_level ''a1'' (Some ''garbage'') = Inr (JList []) \<and>
   fst (save_real_items toy_lib ''a1'' None (JList []) toy_world_one_level) = Inr () \<and>
   save_real_items toy_lib ''a1'' None (JList []) toy_world_one_level =
     save_real_items toy_lib ''a1'' (Some ''garbage'') (JList []) toy_world_one_level"
proof -
  have h1: "real_file toy_world_one_level = Some toy_store_one_level"
    by (simp add: toy_world_one_level_def)
  have h2: "py_get toy_store_one_level ''policy'' (JObj []) = Inr (JObj [(''requires_l2'', JBool False)])"
    by (simp add: toy_store_one_level_def)
  have h3: "py_get (JObj [(''requires_l2'', JBool False)]) ''requires_l2'' (JBool False) = Inr (JBool False)"
    by simp
  have h4: "\<not> py_truthy (JBool False)" by simp
  from one_level_record_ignores_l2 [OF h1 h2 h3 h4, of toy_lib "''a1''" None "Some ''garbage''" "JList []"]
  show ?thesis
    using h1 h2 h3 h4 toy_unlock_one_level toy_save_one_level by simp
qed

end
